theory Spec2Isabelle
  imports Main "HOL-Library.AList" "HOL-Library.Sublist"
begin

section \<open>HTTP values shared by the demos\<close>

text \<open>
  The demos are Go programs over \<open>net/http\<close>. A header set is a list of key/value pairs
  read with \<open>Get\<close> (the empty string when the key is absent) and written with \<open>Set\<close>
  (replacing the value of the key). Keys are compared as the source writes them.
\<close>

type_synonym Header = "(string \<times> string) list"

definition Header_Get :: "Header \<Rightarrow> string \<Rightarrow> string" where
  "Header_Get h k = (case map_of h k of None \<Rightarrow> [] | Some v \<Rightarrow> v)"

definition Header_Set :: "string \<Rightarrow> string \<Rightarrow> Header \<Rightarrow> Header" where
  "Header_Set k v h = AList.update k v h"

definition Header_Del :: "string \<Rightarrow> Header \<Rightarrow> Header" where
  "Header_Del k h = AList.delete k h"

datatype verb = GET | POST | PUT | DELETE | OPTIONS | HEAD | PATCH

text \<open>
  A request as the transport delivers it: the method (a verb), URL path, headers, and the
  user/password pair that \<open>r.BasicAuth()\<close> decodes from the Authorization header
  (\<open>None\<close> when the header is missing or is not well-formed basic authentication).
  \<open>CtxParams\<close> is the value stored in the request's context under
  \<open>httprouter.ParamsKey\<close>, absent until a handler stores one.
\<close>

record Request =
  Method :: verb
  URLPath :: string
  ReqHeader :: Header
  Credentials :: "(string \<times> string) option"
  CtxParams :: "(string \<times> string) list option"

definition Request_BasicAuth :: "Request \<Rightarrow> string \<times> string \<times> bool" where
  "Request_BasicAuth r =
     (case Credentials r of None \<Rightarrow> ([], [], False) | Some (u, p) \<Rightarrow> (u, p, True))"

text \<open>
  \<open>http.ResponseWriter\<close>: the status line is committed by the first \<open>WriteHeader\<close>
  (or by the first \<open>Write\<close>, with 200); later \<open>WriteHeader\<close> calls and later header
  changes do not reach the response.
\<close>

record ResponseWriter =
  header :: Header
  wroteHeader :: bool
  status :: nat
  body :: string

definition fresh_writer :: ResponseWriter where
  "fresh_writer = \<lparr>header = [], wroteHeader = False, status = 0, body = []\<rparr>"

definition WriteHeader :: "nat \<Rightarrow> ResponseWriter \<Rightarrow> ResponseWriter" where
  "WriteHeader code w =
     (if wroteHeader w then w else w\<lparr>wroteHeader := True, status := code\<rparr>)"

definition Write :: "string \<Rightarrow> ResponseWriter \<Rightarrow> ResponseWriter" where
  "Write s w =
     (let w' = (if wroteHeader w then w else WriteHeader 200 w)
      in w'\<lparr>body := body w' @ s\<rparr>)"

definition w_Header_Set :: "string \<Rightarrow> string \<Rightarrow> ResponseWriter \<Rightarrow> ResponseWriter" where
  "w_Header_Set k v w =
     (if wroteHeader w then w else w\<lparr>header := Header_Set k v (header w)\<rparr>)"

definition w_Header_Del :: "string \<Rightarrow> ResponseWriter \<Rightarrow> ResponseWriter" where
  "w_Header_Del k w =
     (if wroteHeader w then w else w\<lparr>header := Header_Del k (header w)\<rparr>)"

definition StatusNotFound :: nat where "StatusNotFound = 404"
definition StatusUnauthorized :: nat where "StatusUnauthorized = 401"
definition StatusInternalServerError :: nat where "StatusInternalServerError = 500"
definition StatusNoContent :: nat where "StatusNoContent = 204"
definition StatusOK :: nat where "StatusOK = 200"

text \<open>\<open>http.StatusText\<close> on the status codes that occur in the demos; empty otherwise.\<close>

fun StatusText :: "nat \<Rightarrow> string" where
  "StatusText code =
     (if code = 200 then ''OK''
      else if code = 204 then ''No Content''
      else if code = 301 then ''Moved Permanently''
      else if code = 302 then ''Found''
      else if code = 308 then ''Permanent Redirect''
      else if code = 401 then ''Unauthorized''
      else if code = 404 then ''Not Found''
      else if code = 405 then ''Method Not Allowed''
      else if code = 500 then ''Internal Server Error''
      else [])"

text \<open>\<open>http.Error\<close>: plain-text error reply with the given status.\<close>

definition http_Error :: "ResponseWriter \<Rightarrow> string \<Rightarrow> nat \<Rightarrow> ResponseWriter" where
  "http_Error w msg code =
     Write (msg @ [CHR 0x0A])
       (WriteHeader code
         (w_Header_Set ''X-Content-Type-Options'' ''nosniff''
           (w_Header_Set ''Content-Type'' ''text/plain; charset=utf-8''
             (w_Header_Del ''Content-Length'' w))))"

section \<open>The httprouter demo: handlers\<close>

text \<open>
  \<open>httprouter.Params\<close> is the ordered list of captured parameters; \<open>ByName\<close> returns
  the value of the first entry with the name, or the empty string.
\<close>

type_synonym Params = "(string \<times> string) list"

definition ByName :: "Params \<Rightarrow> string \<Rightarrow> string" where
  "ByName ps name = (case map_of ps name of None \<Rightarrow> [] | Some v \<Rightarrow> v)"

record Book =
  ISDN :: string
  Title :: string
  Author :: string
  Pages :: int

text \<open>The package-level variables of the demo: the \<open>bookstore\<close> map.\<close>

record Globals =
  bookstore :: "string \<rightharpoonup> Book"

text \<open>
  A handler call ends normally or panics; either way the writer holds what was written
  up to that point.
\<close>

datatype outcome = Done ResponseWriter | Panicked string ResponseWriter

fun writer_of :: "outcome \<Rightarrow> ResponseWriter" where
  "writer_of (Done w) = w"
| "writer_of (Panicked e w) = w"

type_synonym Handle = "ResponseWriter \<Rightarrow> Request \<Rightarrow> Params \<Rightarrow> Globals \<Rightarrow> outcome \<times> Globals"

text \<open>Decimal printing of a Go \<open>int\<close>, as \<open>%v\<close> prints it.\<close>

definition digit_char :: "nat \<Rightarrow> char" where
  "digit_char d = ''0123456789'' ! d"

function show_nat :: "nat \<Rightarrow> string" where
  "show_nat n = (if n < 10 then [digit_char n] else show_nat (n div 10) @ [digit_char (n mod 10)])"
  by pat_completeness auto
termination
  by (relation "measure id") auto

declare show_nat.simps [simp del]

definition show_int :: "int \<Rightarrow> string" where
  "show_int i = (if i < 0 then CHR ''-'' # show_nat (nat (- i)) else show_nat (nat i))"

text \<open>\<open>fmt.Fprintf(w, "%+v", book)\<close> for a \<open>*Book\<close>.\<close>

definition fmt_Book :: "Book \<Rightarrow> string" where
  "fmt_Book b =
     ''&{ISDN:'' @ ISDN b @ '' Title:'' @ Title b @ '' Author:'' @ Author b
       @ '' Pages:'' @ show_int (Pages b) @ ''}''"

definition book_not_found_body :: string where
  "book_not_found_body = ''{\"error\": \"Book not found\"}''"

definition BookShow :: Handle where
  "BookShow w r ps g =
     (let isdn = ByName ps ''isdn'';
          w1 = w_Header_Set ''Content-Type'' ''application/json'' w
      in case bookstore g isdn of
           None \<Rightarrow> (Done (Write book_not_found_body (WriteHeader StatusNotFound w1)), g)
         | Some book \<Rightarrow> (Done (Write (fmt_Book book) w1), g))"

text \<open>The two books that \<open>main\<close> stores before serving.\<close>

definition book_123 :: Book where
  "book_123 = \<lparr>ISDN = ''123'', Title = ''Silence of the Lambs'',
                Author = ''Thomas Harris'', Pages = 367\<rparr>"

definition book_124 :: Book where
  "book_124 = \<lparr>ISDN = ''124'', Title = ''To Kill a Mocking Bird'',
                Author = ''Harper Lee'', Pages = 320\<rparr>"

definition main_globals :: Globals where
  "main_globals = \<lparr>bookstore = [''123'' \<mapsto> book_123, ''124'' \<mapsto> book_124]\<rparr>"

text \<open>A plain request for a path: no headers, no credentials.\<close>

definition request_for :: "verb \<Rightarrow> string \<Rightarrow> Request" where
  "request_for m p =
     \<lparr>Method = m, URLPath = p, ReqHeader = [], Credentials = None, CtxParams = None\<rparr>"

definition ProtectedContent :: Handle where
  "ProtectedContent w r ps g = (Done (Write ''Protected content accessed successfully!'' w), g)"

definition BasicAuth :: "Handle \<Rightarrow> string \<Rightarrow> string \<Rightarrow> Handle" where
  "BasicAuth h requiredUser requiredPassword w r ps g =
     (case Request_BasicAuth r of
        (user, password, hasAuth) \<Rightarrow>
          if hasAuth \<and> user = requiredUser \<and> password = requiredPassword
          then h w r ps g
          else (Done (http_Error
                        (w_Header_Set ''WWW-Authenticate'' ''Basic realm=Restricted'' w)
                        (StatusText StatusUnauthorized) StatusUnauthorized), g))"

type_synonym HandlerFunc = "ResponseWriter \<Rightarrow> Request \<Rightarrow> Globals \<Rightarrow> outcome \<times> Globals"

definition Index :: Handle where
  "Index w r ps g = (Done (Write (''<h1>Welcome!</h1>'' @ [CHR 0x0A]) w), g)"

definition Hello :: Handle where
  "Hello w r ps g = (Done (Write ''<h1>Hello World!</h1>'' w), g)"

definition HelloWithName :: Handle where
  "HelloWithName w r ps g =
     (let name = ByName ps ''name'' in (Done (Write (''Hello, '' @ name @ ''!'') w), g))"

text \<open>The two format strings below start with Chinese text, written here as its UTF-8 bytes.\<close>

definition FileInfo_prefix :: string where
  "FileInfo_prefix = [CHR 0xE6, CHR 0x96, CHR 0x87, CHR 0xE4, CHR 0xBB, CHR 0xB6, CHR 0xE5,
     CHR 0x90, CHR 0x8D, CHR 0xE6, CHR 0x98, CHR 0xAF, CHR 0xEF, CHR 0xBC, CHR 0x9A]"

definition FileServer_prefix :: string where
  "FileServer_prefix = [CHR 0xE6, CHR 0x96, CHR 0x87, CHR 0xE4, CHR 0xBB, CHR 0xB6, CHR 0xE8,
     CHR 0xB7, CHR 0xAF, CHR 0xE5, CHR 0xBE, CHR 0x84, CHR 0xE6, CHR 0x98, CHR 0xAF, CHR 0xEF,
     CHR 0xBC, CHR 0x9A]"

definition FileInfo :: Handle where
  "FileInfo w r ps g =
     (let filename = ByName ps ''filename''
      in (Done (Write (FileInfo_prefix @ filename @ [CHR 0x0A]) w), g))"

definition FileServer :: Handle where
  "FileServer w r ps g =
     (let filepath = ByName ps ''filepath''
      in (Done (Write (FileServer_prefix @ filepath @ [CHR 0x0A]) w), g))"

definition ParamsFromContext :: "Request \<Rightarrow> Params" where
  "ParamsFromContext r = (case CtxParams r of None \<Rightarrow> [] | Some ps \<Rightarrow> ps)"

definition StandardHello :: HandlerFunc where
  "StandardHello w r g =
     (let params = ParamsFromContext r; name = ByName params ''name''
      in (Done (Write (''Standard handler says: Hello, '' @ name @ ''!'') w), g))"

definition WrapHandler :: "HandlerFunc \<Rightarrow> Handle" where
  "WrapHandler h w r ps g = h w (r\<lparr>CtxParams := Some ps\<rparr>) g"

definition PublicContent :: Handle where
  "PublicContent w r ps g = (Done (Write ''Public content - no auth required'' w), g)"

definition CustomNotFound :: HandlerFunc where
  "CustomNotFound w r g =
     (Done (Write ''<h1>Custom 404 - Page not found</h1>'' (WriteHeader StatusNotFound w)), g)"

definition PanicDemo :: Handle where
  "PanicDemo w r ps g = (Panicked ''demo panic'' w, g)"

definition PanicHandler :: "ResponseWriter \<Rightarrow> Request \<Rightarrow> string \<Rightarrow> ResponseWriter" where
  "PanicHandler w r err =
     Write (''Recovered from panic: '' @ err) (WriteHeader StatusInternalServerError w)"

definition GlobalOPTIONSHandler :: HandlerFunc where
  "GlobalOPTIONSHandler w r g =
     (let w1 = (if Header_Get (ReqHeader r) ''Access-Control-Request-Method'' \<noteq> []
                then w_Header_Set ''Access-Control-Allow-Headers'' ''Content-Type, Authorization''
                      (w_Header_Set ''Access-Control-Allow-Origin'' ''*''
                        (w_Header_Set ''Access-Control-Allow-Methods''
                           ''GET, POST, PUT, DELETE, OPTIONS'' w))
                else w)
      in (Done (WriteHeader StatusNoContent w1), g))"

section \<open>The httprouter demo: router and \<open>main\<close>\<close>

text \<open>
  \<open>httprouter.Router\<close> as \<open>main\<close> configures it: the four switches, the fallback
  handlers, and the routes in the order of their registration. The package keeps the
  routes in a tree of its own; here they are the list of what was registered.
\<close>

record Route =
  rverb :: verb
  pattern :: string
  handle :: Handle

record Router =
  RedirectTrailingSlash :: bool
  RedirectFixedPath :: bool
  HandleMethodNotAllowed :: bool
  HandleOPTIONS :: bool
  routes :: "Route list"
  router_NotFound :: "HandlerFunc option"
  router_MethodNotAllowed :: "HandlerFunc option"
  router_GlobalOPTIONS :: "HandlerFunc option"
  router_PanicHandler :: "(ResponseWriter \<Rightarrow> Request \<Rightarrow> string \<Rightarrow> ResponseWriter) option"

definition httprouter_New :: Router where
  "httprouter_New =
     \<lparr>RedirectTrailingSlash = True, RedirectFixedPath = True, HandleMethodNotAllowed = True,
      HandleOPTIONS = True, routes = [], router_NotFound = None,
      router_MethodNotAllowed = None, router_GlobalOPTIONS = None,
      router_PanicHandler = None\<rparr>"

definition router_GET :: "string \<Rightarrow> Handle \<Rightarrow> Router \<Rightarrow> Router" where
  "router_GET path h rt = rt\<lparr>routes := routes rt @ [\<lparr>rverb = GET, pattern = path, handle = h\<rparr>]\<rparr>"

text \<open>
  Two handlers of \<open>main\<close> depend on what is outside the program: \<open>BookIndex\<close> prints
  the addresses of the stored books in the iteration order of the map, and
  \<open>ServeStaticFiles\<close> reads the file system. They are parameters of \<open>main\<close>.
\<close>

record External =
  BookIndex :: Handle
  ServeStaticFiles :: Handle

definition main_router :: "External \<Rightarrow> Router" where
  "main_router ext =
     (let router = httprouter_New;
          router = router\<lparr>RedirectTrailingSlash := True\<rparr>;
          router = router\<lparr>RedirectFixedPath := True\<rparr>;
          router = router\<lparr>HandleMethodNotAllowed := True\<rparr>;
          router = router\<lparr>HandleOPTIONS := True\<rparr>;
          router = router_GET ''/'' Index router;
          router = router_GET ''/hello'' Hello router;
          router = router_GET ''/hello/:name'' HelloWithName router;
          router = router_GET ''/src/:filename'' FileInfo router;
          router = router_GET ''/files/*filepath'' FileServer router;
          router = router_GET ''/static/*filepath'' (ServeStaticFiles ext) router;
          router = router_GET ''/std/:name'' (WrapHandler StandardHello) router;
          router = router_GET ''/books'' (BookIndex ext) router;
          router = router_GET ''/books/:isdn'' BookShow router;
          router = router\<lparr>router_NotFound := Some CustomNotFound\<rparr>;
          router = router\<lparr>router_GlobalOPTIONS := Some GlobalOPTIONSHandler\<rparr>;
          router = router\<lparr>router_PanicHandler := Some PanicHandler\<rparr>;
          router = router_GET ''/public'' PublicContent router;
          router = router_GET ''/protected'' (BasicAuth ProtectedContent ''admin'' ''secret'') router;
          router = router_GET ''/panic'' PanicDemo router
      in router)"

text \<open>
  Modelled from the spec: the path matcher (section 4.1) is the router package's own
  tree, which is not part of the repository. It is a parameter here: a function from
  the registered routes, a method and a path to the match result of the spec's data
  model (section 3).
\<close>

datatype match_result =
    Matched Route Params
  | NotFound
  | MethodNotAllowed "verb list"
  | RedirectSuggested string

type_synonym Matcher = "Route list \<Rightarrow> verb \<Rightarrow> string \<Rightarrow> match_result"

fun is_Matched :: "match_result \<Rightarrow> bool" where
  "is_Matched (Matched route ps) = True"
| "is_Matched other = False"

definition all_verbs :: "verb list" where
  "all_verbs = [GET, POST, PUT, DELETE, OPTIONS, HEAD, PATCH]"

definition has_route :: "Matcher \<Rightarrow> Route list \<Rightarrow> string \<Rightarrow> bool" where
  "has_route mt rs p = list_ex (\<lambda>m. is_Matched (mt rs m p)) all_verbs"

text \<open>What a request made run, in order.\<close>

datatype event =
    RouteHandlerRun verb string
  | GlobalOPTIONSRun
  | NotFoundRun
  | MethodNotAllowedRun
  | RedirectSent string
  | PanicHandlerRun string

fun is_RouteHandlerRun :: "event \<Rightarrow> bool" where
  "is_RouteHandlerRun (RouteHandlerRun m p) = True"
| "is_RouteHandlerRun other = False"

fun is_PanicHandlerRun :: "event \<Rightarrow> bool" where
  "is_PanicHandlerRun (PanicHandlerRun e) = True"
| "is_PanicHandlerRun other = False"

definition http_Redirect :: "ResponseWriter \<Rightarrow> Request \<Rightarrow> string \<Rightarrow> ResponseWriter" where
  "http_Redirect w r url =
     WriteHeader (if Method r = GET then 301 else 308) (w_Header_Set ''Location'' url w)"

definition run_NotFound :: "Router \<Rightarrow> ResponseWriter \<Rightarrow> Request \<Rightarrow> Globals \<Rightarrow> event list \<times> outcome \<times> Globals" where
  "run_NotFound rt w r g =
     (case router_NotFound rt of
        Some h \<Rightarrow> (case h w r g of (out, g') \<Rightarrow> ([NotFoundRun], out, g'))
      | None \<Rightarrow> ([NotFoundRun], Done (http_Error w ''404 page not found'' StatusNotFound), g))"

text \<open>
  Modelled from the spec: the dispatch of section 4.4, which the router package
  implements and the repository only configures. An OPTIONS request for a path that
  has a route under some method goes straight to the global OPTIONS handler when one
  is configured; every other request goes through the matcher, and the match result
  selects the route's handler, a redirect, the method-not-allowed handler or the
  not-found handler.
\<close>

definition dispatch :: "Matcher \<Rightarrow> Router \<Rightarrow> ResponseWriter \<Rightarrow> Request \<Rightarrow> Globals \<Rightarrow> event list \<times> outcome \<times> Globals" where
  "dispatch mt rt w r g =
     (case (if Method r = OPTIONS \<and> HandleOPTIONS rt \<and> has_route mt (routes rt) (URLPath r)
            then router_GlobalOPTIONS rt else None) of
        Some h \<Rightarrow> (case h w r g of (out, g') \<Rightarrow> ([GlobalOPTIONSRun], out, g'))
      | None \<Rightarrow>
          (case mt (routes rt) (Method r) (URLPath r) of
             Matched route ps \<Rightarrow>
               (case handle route w r ps g of
                  (out, g') \<Rightarrow> ([RouteHandlerRun (rverb route) (pattern route)], out, g'))
           | RedirectSuggested url \<Rightarrow>
               (if RedirectTrailingSlash rt \<or> RedirectFixedPath rt
                then ([RedirectSent url], Done (http_Redirect w r url), g)
                else run_NotFound rt w r g)
           | MethodNotAllowed allowed \<Rightarrow>
               (if HandleMethodNotAllowed rt
                then (case router_MethodNotAllowed rt of
                        Some h \<Rightarrow> (case h w r g of (out, g') \<Rightarrow> ([MethodNotAllowedRun], out, g'))
                      | None \<Rightarrow> ([MethodNotAllowedRun],
                                 Done (http_Error w ''Method Not Allowed'' 405), g))
                else run_NotFound rt w r g)
           | NotFound \<Rightarrow> run_NotFound rt w r g))"

text \<open>
  Modelled from the spec: the recovery boundary of section 4.5 around the dispatch.
  With a \<open>PanicHandler\<close> configured, a panic of whatever ran is caught here and handed,
  with its payload and the writer as the panic left it, to that handler; without one
  the panic leaves \<open>ServeHTTP\<close>.
\<close>

definition ServeHTTP :: "Matcher \<Rightarrow> Router \<Rightarrow> ResponseWriter \<Rightarrow> Request \<Rightarrow> Globals \<Rightarrow> event list \<times> outcome \<times> Globals" where
  "ServeHTTP mt rt w r g =
     (case dispatch mt rt w r g of
        (evs, Done w', g') \<Rightarrow> (evs, Done w', g')
      | (evs, Panicked e w', g') \<Rightarrow>
          (case router_PanicHandler rt of
             Some ph \<Rightarrow> (evs @ [PanicHandlerRun e], Done (ph w' r e), g')
           | None \<Rightarrow> (evs, Panicked e w', g')))"

text \<open>
  The server answers the requests it receives one after the other, each on a writer
  of its own, the package-level state passing from one to the next.
\<close>

fun serve_requests :: "Matcher \<Rightarrow> Router \<Rightarrow> Globals \<Rightarrow> Request list \<Rightarrow> (event list \<times> outcome) list" where
  "serve_requests mt rt g [] = []"
| "serve_requests mt rt g (r # rs) =
     (case ServeHTTP mt rt fresh_writer r g of
        (evs, out, g') \<Rightarrow> (evs, out) # serve_requests mt rt g' rs)"

text \<open>
  A matcher to run examples with: a path matches the route of its method whose
  pattern has no parameter and is that very text, and nothing else.
\<close>

fun find_route :: "Route list \<Rightarrow> verb \<Rightarrow> string \<Rightarrow> Route option" where
  "find_route [] m p = None"
| "find_route (route # rs) m p =
     (if rverb route = m \<and> pattern route = p \<and> CHR '':'' \<notin> set p \<and> CHR ''*'' \<notin> set p
      then Some route else find_route rs m p)"

definition exact_matcher :: Matcher where
  "exact_matcher rs m p = (case find_route rs m p of Some route \<Rightarrow> Matched route [] | None \<Rightarrow> NotFound)"

text \<open>
  An environment to run \<open>main\<close> in: a listing of two addresses for \<open>BookIndex\<close>, no
  static file on disk for \<open>ServeStaticFiles\<close>.
\<close>

definition sample_External :: External where
  "sample_External =
     \<lparr>BookIndex = (\<lambda>w r ps g. (Done (Write ''[0xc000012340 0xc000012380]''
                      (w_Header_Set ''Content-Type'' ''application/json'' w)), g)),
      ServeStaticFiles = (\<lambda>w r ps g. (Done (http_Error w ''404 page not found'' StatusNotFound), g))\<rparr>"

fun all_Done :: "(event list \<times> outcome) list \<Rightarrow> bool" where
  "all_Done [] = True"
| "all_Done ((evs, Done w) # xs) = all_Done xs"
| "all_Done ((evs, Panicked e w) # xs) = False"

section \<open>The gin demo: context and middleware\<close>

text \<open>
  \<open>gin.Context\<close>, as far as the demo uses it: the request, the response writer, the
  key/value store of \<open>c.Set\<close>, and the abort flag that \<open>c.Abort()\<close> raises. \<open>clock\<close> is
  what \<open>time.Now()\<close> reads and \<open>logged\<close> what \<open>log.Printf\<close> has printed; the one line
  the demo prints is kept as its arguments.
\<close>

datatype log_line = RequestTimed verb string int

record Context =
  Req :: Request
  Writer :: ResponseWriter
  Keys :: "string \<rightharpoonup> string"
  aborted :: bool
  clock :: int
  logged :: "log_line list"

text \<open>
  gin's writer keeps the status it was given (200 at first) until the header is
  written; a status given after that is dropped.
\<close>

definition gin_fresh_writer :: ResponseWriter where
  "gin_fresh_writer = \<lparr>header = [], wroteHeader = False, status = 200, body = []\<rparr>"

definition gin_WriteHeader :: "nat \<Rightarrow> ResponseWriter \<Rightarrow> ResponseWriter" where
  "gin_WriteHeader code w = (if 0 < code \<and> \<not> wroteHeader w then w\<lparr>status := code\<rparr> else w)"

definition gin_WriteHeaderNow :: "ResponseWriter \<Rightarrow> ResponseWriter" where
  "gin_WriteHeaderNow w = w\<lparr>wroteHeader := True\<rparr>"

definition gin_Write :: "string \<Rightarrow> ResponseWriter \<Rightarrow> ResponseWriter" where
  "gin_Write s w = (gin_WriteHeaderNow w)\<lparr>body := body w @ s\<rparr>"

definition new_Context :: "Request \<Rightarrow> int \<Rightarrow> Context" where
  "new_Context r t =
     \<lparr>Req = r, Writer = gin_fresh_writer, Keys = Map.empty, aborted = False, clock = t,
      logged = []\<rparr>"

definition c_Header :: "string \<Rightarrow> string \<Rightarrow> Context \<Rightarrow> Context" where
  "c_Header k v c =
     c\<lparr>Writer := (if v = [] then w_Header_Del k (Writer c) else w_Header_Set k v (Writer c))\<rparr>"

definition c_GetHeader :: "string \<Rightarrow> Context \<Rightarrow> string" where
  "c_GetHeader k c = Header_Get (ReqHeader (Req c)) k"

definition c_Status :: "nat \<Rightarrow> Context \<Rightarrow> Context" where
  "c_Status code c = c\<lparr>Writer := gin_WriteHeader code (Writer c)\<rparr>"

definition c_Abort :: "Context \<Rightarrow> Context" where
  "c_Abort c = c\<lparr>aborted := True\<rparr>"

definition c_AbortWithStatus :: "nat \<Rightarrow> Context \<Rightarrow> Context" where
  "c_AbortWithStatus code c =
     (let c1 = c_Status code c; c2 = c1\<lparr>Writer := gin_WriteHeaderNow (Writer c1)\<rparr>
      in c_Abort c2)"

definition bodyAllowedForStatus :: "nat \<Rightarrow> bool" where
  "bodyAllowedForStatus code = (\<not> (100 \<le> code \<and> code \<le> 199) \<and> code \<noteq> 204 \<and> code \<noteq> 304)"

definition writeContentType :: "string \<Rightarrow> ResponseWriter \<Rightarrow> ResponseWriter" where
  "writeContentType v w =
     (if Header_Get (header w) ''Content-Type'' = [] then w_Header_Set ''Content-Type'' v w else w)"

text \<open>\<open>c.JSON(code, obj)\<close>, the second argument being the encoding of \<open>obj\<close>.\<close>

definition c_JSON :: "nat \<Rightarrow> string \<Rightarrow> Context \<Rightarrow> Context" where
  "c_JSON code encoded c =
     (let c1 = c_Status code c;
          w1 = writeContentType ''application/json; charset=utf-8'' (Writer c1)
      in if bodyAllowedForStatus code then c1\<lparr>Writer := gin_Write encoded w1\<rparr>
         else c1\<lparr>Writer := gin_WriteHeaderNow w1\<rparr>)"

definition c_Set :: "string \<Rightarrow> string \<Rightarrow> Context \<Rightarrow> Context" where
  "c_Set k v c = c\<lparr>Keys := (Keys c)(k \<mapsto> v)\<rparr>"

definition log_Printf :: "log_line \<Rightarrow> Context \<Rightarrow> Context" where
  "log_Printf l c = c\<lparr>logged := logged c @ [l]\<rparr>"

text \<open>
  A call of a handler function runs up to its \<open>c.Next()\<close>, to its return, or to a
  panic. \<open>Next c k\<close>: it called \<open>c.Next()\<close> with the context \<open>c\<close>, and \<open>k\<close> is the rest
  of the function, applied to what the call of \<open>c.Next()\<close> comes back with.
  \<open>Return c\<close>: it returned without calling \<open>c.Next()\<close>. \<open>Panics e c\<close>: it panicked
  with payload \<open>e\<close>.
\<close>

datatype result = Ok Context | Panic string Context

datatype step = Next Context "result \<Rightarrow> result" | Return Context | Panics string Context

fun context_of :: "result \<Rightarrow> Context" where
  "context_of (Ok c) = c"
| "context_of (Panic e c) = c"

text \<open>The rest of a function after \<open>c.Next()\<close>: skipped when the call panicked.\<close>

definition after_Next :: "(Context \<Rightarrow> Context) \<Rightarrow> result \<Rightarrow> result" where
  "after_Next f r = (case r of Ok c \<Rightarrow> Ok (f c) | Panic e c \<Rightarrow> Panic e c)"

definition and_return :: "result \<Rightarrow> result" where
  "and_return r = r"

record Handler =
  hname :: string
  run :: "Context \<Rightarrow> step"

definition handler :: "string \<Rightarrow> (Context \<Rightarrow> step) \<Rightarrow> Handler" where
  "handler n f = \<lparr>hname = n, run = f\<rparr>"

definition TimeMiddleware :: "Context \<Rightarrow> step" where
  "TimeMiddleware c =
     (let start = clock c
      in Next c (after_Next (\<lambda>c'.
           let duration = clock c' - start
           in log_Printf (RequestTimed (Method (Req c')) (URLPath (Req c')) duration) c')))"

definition CorsMiddleware :: "Context \<Rightarrow> step" where
  "CorsMiddleware c =
     (let origin = Header_Get (ReqHeader (Req c)) ''Origin'';
          c = (if origin \<noteq> []
               then c_Header ''Access-Control-Allow-Credentials'' ''true''
                     (c_Header ''Access-Control-Expose-Headers''
                        ''Content-Length, Access-Control-Allow-Origin, Access-Control-Allow-Headers''
                     (c_Header ''Access-Control-Allow-Headers''
                        ''Origin, X-Requested-With, Content-Type, Accept, Authorization''
                     (c_Header ''Access-Control-Allow-Methods''
                        ''POST, GET, OPTIONS, PUT, DELETE, UPDATE''
                     (c_Header ''Access-Control-Allow-Origin'' origin c))))
               else c)
      in if Method (Req c) = OPTIONS
         then Return (c_AbortWithStatus StatusNoContent c)
         else Next c and_return)"

text \<open>The body of the 401 reply: \<open>{"error":"..."}\<close> with the message in UTF-8.\<close>

definition unauthorized_json :: string where
  "unauthorized_json = ''{\"error\":\"'' @
     [CHR 0xE6, CHR 0x9C, CHR 0xAA, CHR 0xE6, CHR 0x8E, CHR 0x88, CHR 0xE6, CHR 0x9D, CHR 0x83,
      CHR 0xE8, CHR 0xAE, CHR 0xBF, CHR 0xE9, CHR 0x97, CHR 0xAE] @ ''\"}''"

definition AuthMiddleware :: "Context \<Rightarrow> step" where
  "AuthMiddleware c =
     (let token = c_GetHeader ''Authorization'' c
      in if token = []
         then Return (c_Abort (c_JSON StatusUnauthorized unauthorized_json c))
         else Next (c_Set ''user_id'' ''123'' c) and_return)"

definition VersionMiddleware :: "Context \<Rightarrow> step" where
  "VersionMiddleware c = Next (c_Set ''api_version'' ''v1'' c) and_return"

definition delete_ok_json :: string where
  "delete_ok_json = ''{\"message\":\"'' @
     [CHR 0xE5, CHR 0x88, CHR 0xA0, CHR 0xE9, CHR 0x99, CHR 0xA4, CHR 0xE6, CHR 0x88, CHR 0x90,
      CHR 0xE5, CHR 0x8A, CHR 0x9F] @ ''\"}''"

definition DeleteHandler :: "Context \<Rightarrow> step" where
  "DeleteHandler c = Return (c_JSON StatusOK delete_ok_json c)"

section \<open>The gin demo: chain, groups and \<open>main\<close>\<close>

text \<open>
  Modelled from the spec: the chain executor of section 4.3, which is gin's and not
  part of the repository. The handlers of a chain run in order, each at most once. A
  handler that calls \<open>c.Next()\<close> gets the rest of the chain run inside that call and
  goes on with its own rest afterwards; a panic passes through the handlers that
  called \<open>c.Next()\<close> (their rest decides what becomes of it). No handler starts once
  the abort flag of the context is up. The first component of the result lists the
  names of the handlers that were started, in the order of their start.
\<close>

fun execute :: "Handler list \<Rightarrow> Context \<Rightarrow> string list \<times> result" where
  "execute [] c = ([], Ok c)"
| "execute (h # hs) c =
     (if aborted c then ([], Ok c)
      else case run h c of
             Next c1 k \<Rightarrow> (case execute hs c1 of (started, r) \<Rightarrow> (hname h # started, k r))
           | Return c1 \<Rightarrow> (case execute hs c1 of (started, r) \<Rightarrow> (hname h # started, r))
           | Panics e c1 \<Rightarrow> ([hname h], Panic e c1))"

text \<open>
  The context a chain hands on after all its handlers have started and none has
  raised the abort flag or panicked on the way in; \<open>None\<close> otherwise.
\<close>

fun reach :: "Handler list \<Rightarrow> Context \<Rightarrow> Context option" where
  "reach [] c = Some c"
| "reach (h # hs) c =
     (if aborted c then None
      else case run h c of
             Next c1 k \<Rightarrow> reach hs c1
           | Return c1 \<Rightarrow> reach hs c1
           | Panics e c1 \<Rightarrow> None)"

text \<open>No handler of the chain aborts or panics before the last one has started.\<close>

definition all_proceed :: "Handler list \<Rightarrow> Context \<Rightarrow> bool" where
  "all_proceed hs c =
     (if hs = [] then True
      else case reach (butlast hs) c of None \<Rightarrow> False | Some c' \<Rightarrow> \<not> aborted c')"

text \<open>
  What the handlers of a chain that called \<open>c.Next()\<close> do, innermost first, with the
  result that comes back to them.
\<close>

fun unwind :: "Handler list \<Rightarrow> Context \<Rightarrow> result \<Rightarrow> result" where
  "unwind [] c r = r"
| "unwind (h # hs) c r =
     (case run h c of
        Next c1 k \<Rightarrow> k (unwind hs c1 r)
      | Return c1 \<Rightarrow> unwind hs c1 r
      | Panics e c1 \<Rightarrow> r)"

text \<open>
  Modelled from the spec: the registration surface of section 4.4, gin's
  \<open>RouterGroup\<close>. \<open>Use\<close> appends middleware to a group; \<open>Group\<close> makes a group that
  starts from the handlers and the path of its parent; a route is registered with the
  handlers of its group followed by its own. Paths are joined as \<open>main\<close> needs it:
  a relative path that starts with a slash, after a base path that is the root or
  does not end with one.
\<close>

record RouterGroup =
  basePath :: string
  Handlers :: "Handler list"

definition joinPaths :: "string \<Rightarrow> string \<Rightarrow> string" where
  "joinPaths absolutePath relativePath =
     (if relativePath = [] then absolutePath
      else if absolutePath = ''/'' then relativePath
      else absolutePath @ relativePath)"

definition group_Use :: "Handler list \<Rightarrow> RouterGroup \<Rightarrow> RouterGroup" where
  "group_Use middleware grp = grp\<lparr>Handlers := Handlers grp @ middleware\<rparr>"

definition group_Group :: "string \<Rightarrow> RouterGroup \<Rightarrow> RouterGroup" where
  "group_Group relativePath grp =
     \<lparr>basePath = joinPaths (basePath grp) relativePath, Handlers = Handlers grp\<rparr>"

definition combineHandlers :: "RouterGroup \<Rightarrow> Handler list \<Rightarrow> Handler list" where
  "combineHandlers grp handlers = Handlers grp @ handlers"

record Engine =
  root :: RouterGroup
  engine_HandleMethodNotAllowed :: bool
  trees :: "(verb \<times> string \<times> Handler list) list"
  noRoute :: "Handler list"
  noMethod :: "Handler list"

definition gin_New :: Engine where
  "gin_New = \<lparr>root = \<lparr>basePath = ''/'', Handlers = []\<rparr>,
              engine_HandleMethodNotAllowed = False, trees = [], noRoute = [], noMethod = []\<rparr>"

definition engine_Use :: "Handler list \<Rightarrow> Engine \<Rightarrow> Engine" where
  "engine_Use middleware e = e\<lparr>root := group_Use middleware (root e)\<rparr>"

definition group_handle :: "verb \<Rightarrow> string \<Rightarrow> Handler list \<Rightarrow> RouterGroup \<Rightarrow> Engine \<Rightarrow> Engine" where
  "group_handle m relativePath handlers grp e =
     e\<lparr>trees := trees e @ [(m, joinPaths (basePath grp) relativePath, combineHandlers grp handlers)]\<rparr>"

fun chain_of :: "(verb \<times> string \<times> Handler list) list \<Rightarrow> verb \<Rightarrow> string \<Rightarrow> Handler list option" where
  "chain_of [] m p = None"
| "chain_of ((m', p', hs) # rest) m p = (if m' = m \<and> p' = p then Some hs else chain_of rest m p)"

text \<open>
  The middleware of the two libraries that \<open>main\<close> installs first, as far as a chain
  sees them: \<open>sessions.Sessions\<close> stores the session under its key and calls
  \<open>c.Next()\<close>; \<open>gin.Recovery\<close> calls \<open>c.Next()\<close> and turns a panic that comes back
  into an aborted 500 reply.
\<close>

definition Sessions :: "string \<Rightarrow> Context \<Rightarrow> step" where
  "Sessions name c = Next (c_Set ''github.com/gin-contrib/sessions'' name c) and_return"

definition Recovery :: "Context \<Rightarrow> step" where
  "Recovery c =
     Next c (\<lambda>r. case r of Ok c' \<Rightarrow> Ok c'
                 | Panic e c' \<Rightarrow> Ok (c_AbortWithStatus StatusInternalServerError c'))"

text \<open>
  The three handlers that \<open>main\<close> writes in place: the redirect of \<open>GET /api/\<close>
  (\<open>c.Redirect(302, "/api/hello")\<close>, which is \<open>http.Redirect\<close> on gin's writer) and the
  two of the admin group.
\<close>

definition ApiRootRedirect :: "Context \<Rightarrow> step" where
  "ApiRootRedirect c =
     (let w = w_Header_Set ''Location'' ''/api/hello'' (Writer c);
          plain = (Method (Req c) = GET \<or> Method (Req c) = HEAD)
                  \<and> Header_Get (header w) ''Content-Type'' = [];
          w = (if plain then w_Header_Set ''Content-Type'' ''text/html; charset=utf-8'' w else w);
          w = gin_WriteHeader 302 w;
          w = (if plain \<and> Method (Req c) = GET
               then gin_Write (''<a href=\"/api/hello\">Found</a>.'' @ [CHR 0x0A, CHR 0x0A]) w
               else w)
      in Return (c\<lparr>Writer := w\<rparr>))"

definition admin_users_json :: string where
  "admin_users_json = ''{\"message\":\"'' @
     [CHR 0xE7, CHR 0xAE, CHR 0xA1, CHR 0xE7, CHR 0x90, CHR 0x86, CHR 0xE5, CHR 0x91, CHR 0x98,
      CHR 0xE7, CHR 0x94, CHR 0xA8, CHR 0xE6, CHR 0x88, CHR 0xB7, CHR 0xE5, CHR 0x88, CHR 0x97,
      CHR 0xE8, CHR 0xA1, CHR 0xA8] @ ''\"}''"

definition admin_create_json :: string where
  "admin_create_json = ''{\"message\":\"'' @
     [CHR 0xE5, CHR 0x88, CHR 0x9B, CHR 0xE5, CHR 0xBB, CHR 0xBA, CHR 0xE7, CHR 0x94, CHR 0xA8,
      CHR 0xE6, CHR 0x88, CHR 0xB7] @ ''\"}''"

definition AdminListUsers :: "Context \<Rightarrow> step" where
  "AdminListUsers c = Return (c_JSON StatusOK admin_users_json c)"

definition AdminCreateUser :: "Context \<Rightarrow> step" where
  "AdminCreateUser c = Return (c_JSON StatusOK admin_create_json c)"

text \<open>
  The handlers of \<open>main\<close> that need the session store, the form parser, the clock's
  calendar, the JSON encoder on request data or the file system are parameters.
\<close>

record GinExternal =
  HelloHandler :: Handler
  LoginHandler :: Handler
  ProfileHandler :: Handler
  UpdateHandler :: Handler
  Handle404 :: Handler
  Handle405 :: Handler
  StaticDir :: Handler
  StaticFavicon :: Handler

definition gin_main :: "GinExternal \<Rightarrow> Engine" where
  "gin_main ext =
     (let router = gin_New;
          router = router\<lparr>engine_HandleMethodNotAllowed := True\<rparr>;
          router = engine_Use [handler ''sessions.Sessions'' (Sessions ''mysession'')] router;
          router = engine_Use [handler ''gin.Recovery'' Recovery] router;
          router = engine_Use [handler ''CorsMiddleware'' CorsMiddleware] router;
          router = engine_Use [handler ''TimeMiddleware'' TimeMiddleware] router;
          router = group_handle GET ''/static/*filepath'' [StaticDir ext] (root router) router;
          router = group_handle HEAD ''/static/*filepath'' [StaticDir ext] (root router) router;
          router = group_handle GET ''/favicon.ico'' [StaticFavicon ext] (root router) router;
          router = group_handle HEAD ''/favicon.ico'' [StaticFavicon ext] (root router) router;
          public = group_Group ''/api'' (root router);
          router = group_handle GET ''/hello'' [HelloHandler ext] public router;
          router = group_handle POST ''/login'' [LoginHandler ext] public router;
          router = group_handle GET ''/'' [handler ''main.func1'' ApiRootRedirect] public router;
          protected = group_Group ''/api'' (root router);
          protected = group_Use [handler ''AuthMiddleware'' AuthMiddleware,
                                 handler ''VersionMiddleware'' VersionMiddleware] protected;
          router = group_handle GET ''/profile'' [ProfileHandler ext] protected router;
          router = group_handle POST ''/update'' [UpdateHandler ext] protected router;
          router = group_handle DELETE ''/delete''
                     [handler ''DeleteHandler'' DeleteHandler] protected router;
          admin = group_Group ''/admin'' protected;
          router = group_handle GET ''/users''
                     [handler ''main.func2'' AdminListUsers] admin router;
          router = group_handle POST ''/users''
                     [handler ''main.func3'' AdminCreateUser] admin router;
          router = router\<lparr>noRoute := combineHandlers (root router) [Handle404 ext]\<rparr>;
          router = router\<lparr>noMethod := combineHandlers (root router) [Handle405 ext]\<rparr>
      in router)"

text \<open>External handlers to run \<open>main\<close> with: each only answers 200 with its name.\<close>

definition named_stub :: "string \<Rightarrow> Handler" where
  "named_stub n = \<lparr>hname = n, run = (\<lambda>c. Return (c\<lparr>Writer := gin_Write n (Writer c)\<rparr>))\<rparr>"

definition sample_GinExternal :: GinExternal where
  "sample_GinExternal =
     \<lparr>HelloHandler = named_stub ''HelloHandler'', LoginHandler = named_stub ''LoginHandler'',
      ProfileHandler = named_stub ''ProfileHandler'',
      UpdateHandler = named_stub ''UpdateHandler'', Handle404 = named_stub ''Handle404'',
      Handle405 = named_stub ''Handle405'', StaticDir = named_stub ''StaticDir'',
      StaticFavicon = named_stub ''StaticFavicon''\<rparr>"

text \<open>
  The middleware \<open>main\<close> hands to \<open>router.Use\<close>, call after call, and the middleware it
  hands to \<open>protected.Use\<close>.
\<close>

definition global_chain :: "Handler list" where
  "global_chain = [handler ''sessions.Sessions'' (Sessions ''mysession''),
                   handler ''gin.Recovery'' Recovery,
                   handler ''CorsMiddleware'' CorsMiddleware,
                   handler ''TimeMiddleware'' TimeMiddleware]"

definition protected_chain :: "Handler list" where
  "protected_chain = [handler ''AuthMiddleware'' AuthMiddleware,
                      handler ''VersionMiddleware'' VersionMiddleware]"

text \<open>
  A handler function is quiet after \<open>c.Next()\<close> when, whenever it calls \<open>c.Next()\<close> and
  the call comes back without a panic, its rest ends without a panic as well and
  leaves the response writer as the call handed it back.
\<close>

definition quiet_after :: "(Context \<Rightarrow> step) \<Rightarrow> bool" where
  "quiet_after f =
     (\<forall>c c1 k x. f c = Next c1 k \<longrightarrow> (\<exists>y. k (Ok x) = Ok y \<and> Writer y = Writer x))"

section \<open>Facts about the writer\<close>

lemma Header_Get_Set_same [simp]: "Header_Get (Header_Set k v h) k = v"
  by (simp add: Header_Get_def Header_Set_def update_conv')

lemma Header_Get_Set_other [simp]: "k' \<noteq> k \<Longrightarrow> Header_Get (Header_Set k v h) k' = Header_Get h k'"
  by (simp add: Header_Get_def Header_Set_def update_conv')

lemma Header_Get_Del_other [simp]: "k' \<noteq> k \<Longrightarrow> Header_Get (Header_Del k h) k' = Header_Get h k'"
  by (simp add: Header_Get_def Header_Del_def delete_conv')

lemma status_Write_fresh [simp]: "\<not> wroteHeader w \<Longrightarrow> status (Write s w) = 200"
  by (simp add: Write_def WriteHeader_def)

lemma status_Write_WriteHeader [simp]:
  "\<not> wroteHeader w \<Longrightarrow> status (Write s (WriteHeader code w)) = code"
  by (simp add: Write_def WriteHeader_def)

lemma body_Write [simp]: "body (Write s w) = body w @ s"
  by (simp add: Write_def WriteHeader_def)

lemma body_WriteHeader [simp]: "body (WriteHeader code w) = body w"
  by (simp add: WriteHeader_def)

lemma header_Write [simp]: "header (Write s w) = header w"
  by (simp add: Write_def WriteHeader_def)

lemma header_WriteHeader [simp]: "header (WriteHeader code w) = header w"
  by (simp add: WriteHeader_def)

lemma wroteHeader_w_Header_Set [simp]: "wroteHeader (w_Header_Set k v w) = wroteHeader w"
  by (simp add: w_Header_Set_def)

lemma wroteHeader_w_Header_Del [simp]: "wroteHeader (w_Header_Del k w) = wroteHeader w"
  by (simp add: w_Header_Del_def)

lemma body_w_Header_Set [simp]: "body (w_Header_Set k v w) = body w"
  by (simp add: w_Header_Set_def)

lemma body_w_Header_Del [simp]: "body (w_Header_Del k w) = body w"
  by (simp add: w_Header_Del_def)

lemma header_w_Header_Set_fresh [simp]:
  "\<not> wroteHeader w \<Longrightarrow> header (w_Header_Set k v w) = Header_Set k v (header w)"
  by (simp add: w_Header_Set_def)

lemma header_w_Header_Del_fresh [simp]:
  "\<not> wroteHeader w \<Longrightarrow> header (w_Header_Del k w) = Header_Del k (header w)"
  by (simp add: w_Header_Del_def)

section \<open>BookShow\<close>

text \<open>
  Claim C10. For a request whose response is not yet committed, \<open>BookShow\<close> answers
  with status 404 and the body \<open>{"error": "Book not found"}\<close> exactly when the
  \<open>isdn\<close> parameter is not a key of \<open>bookstore\<close>; hit or miss, the map is
  returned unchanged and the Content-Type is application/json; on a hit the status
  is 200 and the stored book is what is written.
\<close>

theorem BookShow_hit_or_miss:
  assumes fresh: "\<not> wroteHeader w"
  shows "snd (BookShow w r ps g) = g
    \<and> ((status (writer_of (fst (BookShow w r ps g))) = StatusNotFound
          \<and> body (writer_of (fst (BookShow w r ps g))) = body w @ book_not_found_body)
        \<longleftrightarrow> ByName ps ''isdn'' \<notin> dom (bookstore g))
    \<and> Header_Get (header (writer_of (fst (BookShow w r ps g)))) ''Content-Type''
          = ''application/json''
    \<and> (\<forall>b. bookstore g (ByName ps ''isdn'') = Some b \<longrightarrow>
          fst (BookShow w r ps g)
            = Done (Write (fmt_Book b) (w_Header_Set ''Content-Type'' ''application/json'' w))
          \<and> status (writer_of (fst (BookShow w r ps g))) = StatusOK
          \<and> body (writer_of (fst (BookShow w r ps g))) = body w @ fmt_Book b)"
proof (cases "bookstore g (ByName ps ''isdn'')")
  case None
  with fresh show ?thesis
    by (simp add: BookShow_def Let_def StatusNotFound_def domIff)
next
  case (Some b)
  with fresh show ?thesis
    by (simp add: BookShow_def Let_def StatusNotFound_def StatusOK_def domIff)
qed

theorem BookShow_hit_or_miss_witness:
  "\<not> wroteHeader fresh_writer
   \<and> snd (BookShow fresh_writer (request_for GET ''/books/999'') [(''isdn'', ''999'')] main_globals) = main_globals
   \<and> status (writer_of (fst (BookShow fresh_writer (request_for GET ''/books/999'') [(''isdn'', ''999'')] main_globals))) = 404
   \<and> body (writer_of (fst (BookShow fresh_writer (request_for GET ''/books/999'') [(''isdn'', ''999'')] main_globals)))
         = ''{\"error\": \"Book not found\"}''
   \<and> status (writer_of (fst (BookShow fresh_writer (request_for GET ''/books/123'') [(''isdn'', ''123'')] main_globals))) = 200
   \<and> body (writer_of (fst (BookShow fresh_writer (request_for GET ''/books/123'') [(''isdn'', ''123'')] main_globals)))
         = ''&{ISDN:123 Title:Silence of the Lambs Author:Thomas Harris Pages:367}''"
proof -
  have fresh: "\<not> wroteHeader fresh_writer"
    by (simp add: fresh_writer_def)
  have miss: "ByName [(''isdn'', ''999'')] ''isdn'' \<notin> dom (bookstore main_globals)"
    by (simp add: ByName_def main_globals_def)
  have hit: "bookstore main_globals (ByName [(''isdn'', ''123'')] ''isdn'') = Some book_123"
    by (simp add: ByName_def main_globals_def)
  have shown: "fmt_Book book_123
      = ''&{ISDN:123 Title:Silence of the Lambs Author:Thomas Harris Pages:367}''"
    by (simp add: fmt_Book_def book_123_def show_int_def show_nat.simps digit_char_def)
  from BookShow_hit_or_miss [OF fresh, of "request_for GET ''/books/999''" "[(''isdn'', ''999'')]" main_globals] miss
       BookShow_hit_or_miss [OF fresh, of "request_for GET ''/books/123''" "[(''isdn'', ''123'')]" main_globals] hit shown fresh
  show ?thesis
    by (simp add: StatusNotFound_def StatusOK_def book_not_found_body_def fresh_writer_def)
qed

section \<open>BasicAuth\<close>

text \<open>
  Claim C9. \<open>BasicAuth h user pass\<close> hands the request to the wrapped handler \<open>h\<close>,
  with the writer, request and parameters it received, exactly when the request
  carries basic-auth credentials equal to the required pair. In every other case the
  result does not depend on \<open>h\<close> (it is not called): it is the 401 reply of
  \<open>http.Error\<close> with the header \<open>WWW-Authenticate: Basic realm=Restricted\<close>.
\<close>

theorem BasicAuth_guards_handler:
  "(Credentials r = Some (requiredUser, requiredPassword) \<longrightarrow>
      BasicAuth h requiredUser requiredPassword w r ps g = h w r ps g)
   \<and> (Credentials r \<noteq> Some (requiredUser, requiredPassword) \<longrightarrow>
      BasicAuth h requiredUser requiredPassword w r ps g
        = (Done (http_Error (w_Header_Set ''WWW-Authenticate'' ''Basic realm=Restricted'' w)
                   ''Unauthorized'' 401), g)
      \<and> (\<not> wroteHeader w \<longrightarrow>
           status (writer_of (fst (BasicAuth h requiredUser requiredPassword w r ps g))) = 401
         \<and> Header_Get (header (writer_of (fst (BasicAuth h requiredUser requiredPassword w r ps g))))
               ''WWW-Authenticate'' = ''Basic realm=Restricted''))"
proof (cases "Credentials r")
  case None
  then show ?thesis
    by (simp add: BasicAuth_def Request_BasicAuth_def StatusUnauthorized_def http_Error_def)
next
  case (Some up)
  show ?thesis
  proof (cases "up = (requiredUser, requiredPassword)")
    case True
    with Some show ?thesis
      by (simp add: BasicAuth_def Request_BasicAuth_def)
  next
    case False
    with Some show ?thesis
      by (cases up)
         (auto simp: BasicAuth_def Request_BasicAuth_def StatusUnauthorized_def http_Error_def)
  qed
qed

theorem BasicAuth_guards_handler_witness:
  "BasicAuth ProtectedContent ''admin'' ''secret'' fresh_writer
       ((request_for GET ''/protected'')\<lparr>Credentials := Some (''admin'', ''secret'')\<rparr>) [] main_globals
     = ProtectedContent fresh_writer
       ((request_for GET ''/protected'')\<lparr>Credentials := Some (''admin'', ''secret'')\<rparr>) [] main_globals
   \<and> status (writer_of (fst (BasicAuth ProtectedContent ''admin'' ''secret'' fresh_writer
       ((request_for GET ''/protected'')\<lparr>Credentials := Some (''admin'', ''wrong'')\<rparr>) [] main_globals))) = 401
   \<and> body (writer_of (fst (BasicAuth ProtectedContent ''admin'' ''secret'' fresh_writer
       (request_for GET ''/protected'') [] main_globals))) = ''Unauthorized'' @ [CHR 0x0A]"
  using BasicAuth_guards_handler [of "((request_for GET ''/protected'')\<lparr>Credentials := Some (''admin'', ''secret'')\<rparr>)" "''admin''" "''secret''" ProtectedContent
        fresh_writer "[]" main_globals]
    BasicAuth_guards_handler [of "((request_for GET ''/protected'')\<lparr>Credentials := Some (''admin'', ''wrong'')\<rparr>)" "''admin''" "''secret''" ProtectedContent
        fresh_writer "[]" main_globals]
    BasicAuth_guards_handler [of "(request_for GET ''/protected'')" "''admin''" "''secret''" ProtectedContent
        fresh_writer "[]" main_globals]
  by (simp add: fresh_writer_def http_Error_def request_for_def)

section \<open>The httprouter demo: dispatch facts\<close>

lemma dispatch_no_recovery:
  "dispatch mt rt w r g = (evs, out, g') \<Longrightarrow> \<not> list_ex is_PanicHandlerRun evs"
  by (auto simp: dispatch_def run_NotFound_def
      split: option.splits match_result.splits if_splits prod.splits)

lemma dispatch_global_options:
  assumes "Method r = OPTIONS" "HandleOPTIONS rt" "router_GlobalOPTIONS rt = Some h"
    "has_route mt (routes rt) (URLPath r)"
  shows "dispatch mt rt w r g = ([GlobalOPTIONSRun], fst (h w r g), snd (h w r g))"
  using assms by (simp add: dispatch_def split: prod.splits)

lemma main_router_config:
  "HandleOPTIONS (main_router ext)"
  "router_GlobalOPTIONS (main_router ext) = Some GlobalOPTIONSHandler"
  "router_PanicHandler (main_router ext) = Some PanicHandler"
  "router_NotFound (main_router ext) = Some CustomNotFound"
  by (simp_all add: main_router_def httprouter_New_def router_GET_def Let_def)

lemma main_routes:
  "map (\<lambda>r. (rverb r, pattern r)) (routes (main_router ext)) =
    [(GET, ''/''), (GET, ''/hello''), (GET, ''/hello/:name''), (GET, ''/src/:filename''),
     (GET, ''/files/*filepath''), (GET, ''/static/*filepath''), (GET, ''/std/:name''),
     (GET, ''/books''), (GET, ''/books/:isdn''), (GET, ''/public''), (GET, ''/protected''),
     (GET, ''/panic'')]"
  by (simp add: main_router_def httprouter_New_def router_GET_def Let_def)

lemma ServeHTTP_panic:
  assumes "router_PanicHandler rt = Some ph" "dispatch mt rt w r g = (evs, Panicked e wp, gp)"
  shows "ServeHTTP mt rt w r g = (evs @ [PanicHandlerRun e], Done (ph wp r e), gp)"
  using assms by (simp add: ServeHTTP_def)

lemma ServeHTTP_done:
  assumes "dispatch mt rt w r g = (evs, Done w', g')"
  shows "ServeHTTP mt rt w r g = (evs, Done w', g')"
  using assms by (simp add: ServeHTTP_def)

lemma ServeHTTP_never_panics:
  assumes "router_PanicHandler rt = Some ph"
  shows "\<exists>evs w' g'. ServeHTTP mt rt w r g = (evs, Done w', g')"
proof (cases "dispatch mt rt w r g")
  case (fields evs out g')
  then show ?thesis
    using assms by (cases out) (simp_all add: ServeHTTP_def)
qed

lemma PanicHandler_fresh:
  "\<not> wroteHeader w \<Longrightarrow> status (PanicHandler w r e) = 500
     \<and> body (PanicHandler w r e) = body w @ ''Recovered from panic: '' @ e"
  by (simp add: PanicHandler_def StatusInternalServerError_def)

lemma serve_requests_all_Done:
  assumes "router_PanicHandler rt = Some ph"
  shows "all_Done (serve_requests mt rt g rs)"
proof (induction rs arbitrary: g)
  case Nil
  show ?case by simp
next
  case (Cons r rs)
  obtain evs w' g' where "ServeHTTP mt rt fresh_writer r g = (evs, Done w', g')"
    using ServeHTTP_never_panics [OF assms] by blast
  then show ?case
    using Cons.IH by simp
qed

section \<open>The global OPTIONS handler\<close>

text \<open>
  Claim C7. An OPTIONS request for a path that has a route under some method, sent to
  a router with \<open>HandleOPTIONS\<close> on and \<open>GlobalOPTIONSHandler\<close> installed (as \<open>main\<close>
  does), is answered by that handler alone: no route handler runs, the status is 204
  and not 404, no body is written. The three CORS allow headers are set when the
  request carries \<open>Access-Control-Request-Method\<close>, that is when \<open>Header.Get\<close> finds a
  non-empty value for it, as the handler tests; without it they stay as they were and
  the status is 204 all the same. The matcher is any matcher.
\<close>

theorem OPTIONS_preflight_answered:
  assumes opt: "Method r = OPTIONS"
    and cfg: "HandleOPTIONS rt" "router_GlobalOPTIONS rt = Some GlobalOPTIONSHandler"
    and reg: "has_route mt (routes rt) (URLPath r)"
    and fresh: "\<not> wroteHeader w"
  shows "\<exists>w'. ServeHTTP mt rt w r g = ([GlobalOPTIONSRun], Done w', g)
      \<and> \<not> list_ex is_RouteHandlerRun (fst (ServeHTTP mt rt w r g))
      \<and> status w' = StatusNoContent \<and> status w' \<noteq> StatusNotFound \<and> body w' = body w
      \<and> (if Header_Get (ReqHeader r) ''Access-Control-Request-Method'' \<noteq> []
         then Header_Get (header w') ''Access-Control-Allow-Methods''
                = ''GET, POST, PUT, DELETE, OPTIONS''
            \<and> Header_Get (header w') ''Access-Control-Allow-Origin'' = ''*''
            \<and> Header_Get (header w') ''Access-Control-Allow-Headers''
                = ''Content-Type, Authorization''
         else Header_Get (header w') ''Access-Control-Allow-Methods''
                = Header_Get (header w) ''Access-Control-Allow-Methods''
            \<and> Header_Get (header w') ''Access-Control-Allow-Origin''
                = Header_Get (header w) ''Access-Control-Allow-Origin''
            \<and> Header_Get (header w') ''Access-Control-Allow-Headers''
                = Header_Get (header w) ''Access-Control-Allow-Headers'')"
proof -
  have d: "dispatch mt rt w r g
      = ([GlobalOPTIONSRun], fst (GlobalOPTIONSHandler w r g), snd (GlobalOPTIONSHandler w r g))"
    using opt cfg reg by (rule dispatch_global_options)
  show ?thesis
    using fresh
    by (simp add: ServeHTTP_def d GlobalOPTIONSHandler_def Let_def WriteHeader_def
        StatusNoContent_def StatusNotFound_def)
qed

theorem OPTIONS_preflight_answered_witness:
  "Method ((request_for OPTIONS ''/books'')
      \<lparr>ReqHeader := [(''Access-Control-Request-Method'', ''GET'')]\<rparr>) = OPTIONS
   \<and> has_route exact_matcher (routes (main_router sample_External)) ''/books''
   \<and> fst (ServeHTTP exact_matcher (main_router sample_External) fresh_writer
        ((request_for OPTIONS ''/books'')
           \<lparr>ReqHeader := [(''Access-Control-Request-Method'', ''GET'')]\<rparr>) main_globals)
      = [GlobalOPTIONSRun]
   \<and> fst (snd (ServeHTTP exact_matcher (main_router sample_External) fresh_writer
        ((request_for OPTIONS ''/books'')
           \<lparr>ReqHeader := [(''Access-Control-Request-Method'', ''GET'')]\<rparr>) main_globals))
      = Done \<lparr>header = [(''Access-Control-Allow-Methods'', ''GET, POST, PUT, DELETE, OPTIONS''),
                        (''Access-Control-Allow-Origin'', ''*''),
                        (''Access-Control-Allow-Headers'', ''Content-Type, Authorization'')],
               wroteHeader = True, status = 204, body = []\<rparr>
   \<and> fst (ServeHTTP exact_matcher (main_router sample_External) fresh_writer
        (request_for OPTIONS ''/books'') main_globals) = [GlobalOPTIONSRun]
   \<and> status (writer_of (fst (snd (ServeHTTP exact_matcher (main_router sample_External)
        fresh_writer (request_for OPTIONS ''/books'') main_globals)))) = 204
   \<and> Header_Get (header (writer_of (fst (snd (ServeHTTP exact_matcher
        (main_router sample_External) fresh_writer (request_for OPTIONS ''/books'')
        main_globals))))) ''Access-Control-Allow-Origin'' = []"
proof -
  let ?rt = "main_router sample_External"
  let ?r = "(request_for OPTIONS ''/books'')
      \<lparr>ReqHeader := [(''Access-Control-Request-Method'', ''GET'')]\<rparr>"
  have opt: "Method ?r = OPTIONS" "Method (request_for OPTIONS ''/books'') = OPTIONS"
    by (simp_all add: request_for_def)
  have reg: "has_route exact_matcher (routes ?rt) (URLPath ?r)"
    "has_route exact_matcher (routes ?rt) (URLPath (request_for OPTIONS ''/books''))"
    by (simp_all add: has_route_def all_verbs_def exact_matcher_def main_router_def
        httprouter_New_def router_GET_def Let_def request_for_def)
  have fresh: "\<not> wroteHeader fresh_writer"
    by (simp add: fresh_writer_def)
  from OPTIONS_preflight_answered [OF opt(1) main_router_config(1,2) reg(1) fresh, of main_globals]
       OPTIONS_preflight_answered [OF opt(2) main_router_config(1,2) reg(2) fresh, of main_globals]
       opt reg
  show ?thesis
    by (simp add: ServeHTTP_def dispatch_def main_router_config GlobalOPTIONSHandler_def
        request_for_def fresh_writer_def w_Header_Set_def Header_Set_def Header_Get_def
        WriteHeader_def StatusNoContent_def)
qed

section \<open>Panic recovery\<close>

text \<open>
  Claim C3. On a router with \<open>PanicHandler\<close> installed (as \<open>main\<close> does), when what a
  request runs panics with payload \<open>e\<close> before the response is committed,
  \<open>PanicHandler\<close> runs exactly once, with \<open>e\<close>; the reply is a 500 whose body ends
  in \<open>Recovered from panic: e\<close>; \<open>ServeHTTP\<close> ends normally, and the server goes
  on to answer the requests that follow, none of them ending in a panic either.
  A request routed to \<open>PanicDemo\<close> is such a request: the payload is
  \<open>demo panic\<close>, nothing was written and the package-level state is as before.
  The matcher is any matcher.
\<close>

theorem panic_recovered_once:
  assumes cfg: "router_PanicHandler rt = Some PanicHandler"
    and panic: "dispatch mt rt fresh_writer r g = (evs, Panicked e wp, gp)"
    and uncommitted: "\<not> wroteHeader wp"
  shows "ServeHTTP mt rt fresh_writer r g
           = (evs @ [PanicHandlerRun e], Done (PanicHandler wp r e), gp)
     \<and> filter is_PanicHandlerRun (fst (ServeHTTP mt rt fresh_writer r g)) = [PanicHandlerRun e]
     \<and> status (PanicHandler wp r e) = 500
     \<and> body (PanicHandler wp r e) = body wp @ ''Recovered from panic: '' @ e
     \<and> serve_requests mt rt g (r # rs)
           = (evs @ [PanicHandlerRun e], Done (PanicHandler wp r e)) # serve_requests mt rt gp rs
     \<and> all_Done (serve_requests mt rt g (r # rs))
     \<and> (Method r \<noteq> OPTIONS \<and> mt (routes rt) (Method r) (URLPath r) = Matched route ps
          \<and> handle route = PanicDemo \<longrightarrow>
            e = ''demo panic'' \<and> wp = fresh_writer \<and> gp = g
          \<and> evs = [RouteHandlerRun (rverb route) (pattern route)])"
proof -
  have s: "ServeHTTP mt rt fresh_writer r g
           = (evs @ [PanicHandlerRun e], Done (PanicHandler wp r e), gp)"
    using cfg panic by (rule ServeHTTP_panic)
  have "\<not> list_ex is_PanicHandlerRun evs"
    using panic by (rule dispatch_no_recovery)
  then have f: "filter is_PanicHandlerRun evs = []"
    by (simp add: list_ex_iff filter_empty_conv)
  have demo: "e = ''demo panic'' \<and> wp = fresh_writer \<and> gp = g
          \<and> evs = [RouteHandlerRun (rverb route) (pattern route)]"
    if "Method r \<noteq> OPTIONS" "mt (routes rt) (Method r) (URLPath r) = Matched route ps"
      "handle route = PanicDemo"
    using that panic by (simp add: dispatch_def PanicDemo_def)
  show ?thesis
    using s f PanicHandler_fresh [OF uncommitted] serve_requests_all_Done [OF cfg] demo
    by simp
qed

theorem panic_recovered_once_witness:
  "dispatch exact_matcher (main_router sample_External) fresh_writer
       (request_for GET ''/panic'') main_globals
     = ([RouteHandlerRun GET ''/panic''], Panicked ''demo panic'' fresh_writer, main_globals)
   \<and> \<not> wroteHeader fresh_writer
   \<and> serve_requests exact_matcher (main_router sample_External) main_globals
       [request_for GET ''/panic'', request_for GET ''/hello'']
     = [([RouteHandlerRun GET ''/panic'', PanicHandlerRun ''demo panic''],
         Done \<lparr>header = [], wroteHeader = True, status = 500,
                body = ''Recovered from panic: demo panic''\<rparr>),
        ([RouteHandlerRun GET ''/hello''],
         Done \<lparr>header = [], wroteHeader = True, status = 200,
                body = ''<h1>Hello World!</h1>''\<rparr>)]"
proof -
  let ?rt = "main_router sample_External"
  have panic: "dispatch exact_matcher ?rt fresh_writer (request_for GET ''/panic'') main_globals
      = ([RouteHandlerRun GET ''/panic''], Panicked ''demo panic'' fresh_writer, main_globals)"
    by (simp add: dispatch_def exact_matcher_def main_router_def httprouter_New_def
        router_GET_def Let_def request_for_def PanicDemo_def)
  have fresh: "\<not> wroteHeader fresh_writer"
    by (simp add: fresh_writer_def)
  have hello: "ServeHTTP exact_matcher ?rt fresh_writer (request_for GET ''/hello'') main_globals
      = ([RouteHandlerRun GET ''/hello''],
         Done \<lparr>header = [], wroteHeader = True, status = 200,
                body = ''<h1>Hello World!</h1>''\<rparr>, main_globals)"
    by (simp add: ServeHTTP_def dispatch_def exact_matcher_def main_router_def httprouter_New_def
        router_GET_def Let_def request_for_def Hello_def Write_def WriteHeader_def fresh_writer_def)
  have ph: "PanicHandler fresh_writer (request_for GET ''/panic'') ''demo panic''
      = \<lparr>header = [], wroteHeader = True, status = 500,
         body = ''Recovered from panic: demo panic''\<rparr>"
    by (simp add: PanicHandler_def Write_def WriteHeader_def fresh_writer_def
        StatusInternalServerError_def)
  from panic_recovered_once [OF main_router_config(3) panic fresh,
         of "[request_for GET ''/hello'']"]
  show ?thesis
    by (simp add: hello ph panic fresh)
qed

section \<open>The gin demo: chain facts\<close>

lemma execute_split:
  "reach pre c = Some cB \<Longrightarrow>
     execute (pre @ rest) c
       = (map hname pre @ fst (execute rest cB), unwind pre c (snd (execute rest cB)))"
proof (induction pre arbitrary: c)
  case Nil
  then show ?case by simp
next
  case (Cons h pre)
  from Cons.prems have na: "\<not> aborted c"
    by (simp split: if_splits)
  show ?case
  proof (cases "run h c")
    case (Next c1 k)
    with Cons.prems na have "reach pre c1 = Some cB" by simp
    from Cons.IH [OF this] Next na show ?thesis by simp
  next
    case (Return c1)
    with Cons.prems na have "reach pre c1 = Some cB" by simp
    from Cons.IH [OF this] Return na show ?thesis by simp
  next
    case (Panics e c1)
    with Cons.prems na show ?thesis by simp
  qed
qed

lemma execute_started_prefix: "prefix (fst (execute hs c)) (map hname hs)"
proof (induction hs arbitrary: c)
  case Nil
  show ?case by simp
next
  case (Cons h hs)
  show ?case
  proof (cases "aborted c")
    case True
    then show ?thesis by simp
  next
    case False
    show ?thesis
    proof (cases "run h c")
      case (Next c1 k)
      with False Cons.IH [of c1] show ?thesis
        by (auto split: prod.splits)
    next
      case (Return c1)
      with False Cons.IH [of c1] show ?thesis
        by (auto split: prod.splits)
    next
      case (Panics e c1)
      with False show ?thesis by simp
    qed
  qed
qed

lemma execute_last_started:
  "\<not> aborted c \<Longrightarrow> fst (execute [h] c) = [hname h]"
  by (cases "run h c") simp_all

lemma all_proceed_started:
  assumes "all_proceed hs c"
  shows "fst (execute hs c) = map hname hs"
proof (cases hs rule: rev_cases)
  case Nil
  then show ?thesis by simp
next
  case (snoc pre h)
  with assms obtain c' where r: "reach pre c = Some c'" and na: "\<not> aborted c'"
    by (auto simp: all_proceed_def split: option.splits)
  from execute_split [OF r, of "[h]"] execute_last_started [OF na, of h] snoc
  show ?thesis by simp
qed

lemma abort_split:
  assumes r: "reach pre c = Some cB" and na: "\<not> aborted cB"
    and b: "run B cB = Return c'" and ab: "aborted c'"
  shows "execute (pre @ B # post) c = (map hname pre @ [hname B], unwind pre c (Ok c'))"
proof -
  have "execute (B # post) cB = ([hname B], Ok c')"
    using na b ab by (cases post) simp_all
  with execute_split [OF r, of "B # post"] show ?thesis by simp
qed

lemma hname_handler [simp]: "hname (handler n f) = n"
  by (simp add: handler_def)

lemma run_handler [simp]: "run (handler n f) = f"
  by (simp add: handler_def)

lemma aborted_c_Set [simp]: "aborted (c_Set k v c) = aborted c"
  by (simp add: c_Set_def)

lemma aborted_c_Header [simp]: "aborted (c_Header k v c) = aborted c"
  by (simp add: c_Header_def)

lemma Req_c_Set [simp]: "Req (c_Set k v c) = Req c"
  by (simp add: c_Set_def)

lemma Req_c_Header [simp]: "Req (c_Header k v c) = Req c"
  by (simp add: c_Header_def)

lemma Writer_c_Set [simp]: "Writer (c_Set k v c) = Writer c"
  by (simp add: c_Set_def)

lemma CorsMiddleware_proceeds:
  "Method (Req c) \<noteq> OPTIONS \<Longrightarrow>
     \<exists>c1. CorsMiddleware c = Next c1 and_return \<and> aborted c1 = aborted c \<and> Req c1 = Req c"
  by (simp add: CorsMiddleware_def Let_def)

lemma CorsMiddleware_aborts:
  "Method (Req c) = OPTIONS \<Longrightarrow>
     \<exists>c'. CorsMiddleware c = Return c' \<and> aborted c'
       \<and> (\<not> wroteHeader (Writer c) \<longrightarrow>
            status (Writer c') = 204 \<and> wroteHeader (Writer c') \<and> body (Writer c') = body (Writer c))"
  by (simp add: CorsMiddleware_def Let_def c_AbortWithStatus_def c_Abort_def c_Status_def
      gin_WriteHeader_def gin_WriteHeaderNow_def StatusNoContent_def c_Header_def
      w_Header_Set_def w_Header_Del_def)

lemma AuthMiddleware_aborts:
  "c_GetHeader ''Authorization'' c = [] \<Longrightarrow>
     AuthMiddleware c = Return (c_Abort (c_JSON StatusUnauthorized unauthorized_json c))
     \<and> aborted (c_Abort (c_JSON StatusUnauthorized unauthorized_json c))
     \<and> (\<not> wroteHeader (Writer c) \<longrightarrow>
          status (Writer (c_Abort (c_JSON StatusUnauthorized unauthorized_json c))) = 401
        \<and> body (Writer (c_Abort (c_JSON StatusUnauthorized unauthorized_json c)))
            = body (Writer c) @ unauthorized_json)"
  by (simp add: AuthMiddleware_def Let_def c_Abort_def c_JSON_def c_Status_def
      gin_WriteHeader_def gin_WriteHeaderNow_def gin_Write_def StatusUnauthorized_def
      bodyAllowedForStatus_def writeContentType_def w_Header_Set_def)

lemma protected_chain_reach:
  assumes "\<not> aborted c" "Method (Req c) \<noteq> OPTIONS" "c_GetHeader ''Authorization'' c \<noteq> []"
  shows "\<exists>c'. reach [handler ''sessions.Sessions'' (Sessions ''mysession''),
                      handler ''gin.Recovery'' Recovery,
                      handler ''CorsMiddleware'' CorsMiddleware,
                      handler ''TimeMiddleware'' TimeMiddleware,
                      handler ''AuthMiddleware'' AuthMiddleware,
                      handler ''VersionMiddleware'' VersionMiddleware] c = Some c'
              \<and> \<not> aborted c'"
proof -
  let ?c1 = "c_Set ''github.com/gin-contrib/sessions'' ''mysession'' c"
  from assms(2) have "Method (Req ?c1) \<noteq> OPTIONS" by simp
  from CorsMiddleware_proceeds [OF this] obtain c2
    where cors: "CorsMiddleware ?c1 = Next c2 and_return"
      and c2: "aborted c2 = aborted ?c1" "Req c2 = Req ?c1"
    by blast
  have tok: "c_GetHeader ''Authorization'' c2 \<noteq> []"
    using assms(3) c2 by (simp add: c_GetHeader_def)
  show ?thesis
    using assms(1) cors c2 tok
    by (simp add: Sessions_def Recovery_def TimeMiddleware_def AuthMiddleware_def
        VersionMiddleware_def Let_def)
qed

lemma gin_main_trees:
  "trees (gin_main ext) =
    (let global = [handler ''sessions.Sessions'' (Sessions ''mysession''),
                   handler ''gin.Recovery'' Recovery,
                   handler ''CorsMiddleware'' CorsMiddleware,
                   handler ''TimeMiddleware'' TimeMiddleware];
         grp = [handler ''AuthMiddleware'' AuthMiddleware,
                handler ''VersionMiddleware'' VersionMiddleware]
     in [(GET, ''/static/*filepath'', global @ [StaticDir ext]),
         (HEAD, ''/static/*filepath'', global @ [StaticDir ext]),
         (GET, ''/favicon.ico'', global @ [StaticFavicon ext]),
         (HEAD, ''/favicon.ico'', global @ [StaticFavicon ext]),
         (GET, ''/api/hello'', global @ [HelloHandler ext]),
         (POST, ''/api/login'', global @ [LoginHandler ext]),
         (GET, ''/api/'', global @ [handler ''main.func1'' ApiRootRedirect]),
         (GET, ''/api/profile'', global @ grp @ [ProfileHandler ext]),
         (POST, ''/api/update'', global @ grp @ [UpdateHandler ext]),
         (DELETE, ''/api/delete'', global @ grp @ [handler ''DeleteHandler'' DeleteHandler]),
         (GET, ''/api/admin/users'', global @ grp @ [handler ''main.func2'' AdminListUsers]),
         (POST, ''/api/admin/users'', global @ grp @ [handler ''main.func3'' AdminCreateUser])])"
  by (simp add: gin_main_def Let_def gin_New_def engine_Use_def group_Use_def group_Group_def
      group_handle_def combineHandlers_def joinPaths_def cong: let_weak_cong)

lemma gin_main_protected_routes:
  "chain_of (trees (gin_main ext)) GET ''/api/profile''
     = Some (global_chain @ protected_chain @ [] @ [ProfileHandler ext])"
  "chain_of (trees (gin_main ext)) POST ''/api/update''
     = Some (global_chain @ protected_chain @ [] @ [UpdateHandler ext])"
  "chain_of (trees (gin_main ext)) DELETE ''/api/delete''
     = Some (global_chain @ protected_chain @ [] @ [handler ''DeleteHandler'' DeleteHandler])"
  by (simp_all add: gin_main_trees global_chain_def protected_chain_def)

lemmas gin_eval = global_chain_def protected_chain_def new_Context_def request_for_def
    Sessions_def Recovery_def CorsMiddleware_def TimeMiddleware_def AuthMiddleware_def
    VersionMiddleware_def DeleteHandler_def
    and_return_def after_Next_def c_Set_def c_GetHeader_def c_Abort_def c_JSON_def c_Status_def
    c_AbortWithStatus_def c_Header_def
    Header_Get_def gin_fresh_writer_def gin_WriteHeader_def gin_Write_def gin_WriteHeaderNow_def
    writeContentType_def w_Header_Set_def Header_Set_def log_Printf_def bodyAllowedForStatus_def
    StatusUnauthorized_def StatusNoContent_def StatusOK_def Let_def

section \<open>Order of the chain\<close>

text \<open>
  Claim C1. A route registered on a group made by \<open>Use A\<close>, \<open>Group\<close>, \<open>Use B\<close> with
  handlers \<open>C\<close> and \<open>H\<close> gets the chain \<open>A\<close>, \<open>B\<close>, \<open>C\<close>, \<open>H\<close>. Whatever the
  request, the handlers that start are an initial part of that chain, in its order,
  so none starts twice; when none aborts or panics before \<open>H\<close> starts, all of them
  start: \<open>A\<close>, then \<open>B\<close>, then \<open>C\<close>, then \<open>H\<close>. In \<open>main\<close> the routes of the
  protected group are registered with the four global middleware, then
  \<open>AuthMiddleware\<close> and \<open>VersionMiddleware\<close>, then the route's handler, and a request
  that is not OPTIONS and carries an Authorization header runs them all in that order.
\<close>

theorem middleware_run_in_registration_order:
  "combineHandlers (group_Use B (group_Group p (group_Use A grp))) (C @ [H])
     = Handlers grp @ A @ B @ C @ [H]
   \<and> prefix (fst (execute (A @ B @ C @ [H]) c)) (map hname (A @ B @ C @ [H]))
   \<and> (all_proceed (A @ B @ C @ [H]) c \<longrightarrow>
        fst (execute (A @ B @ C @ [H]) c)
          = map hname A @ map hname B @ map hname C @ [hname H])
   \<and> chain_of (trees (gin_main ext)) GET ''/api/profile''
       = Some (global_chain @ protected_chain @ [] @ [ProfileHandler ext])
   \<and> chain_of (trees (gin_main ext)) POST ''/api/update''
       = Some (global_chain @ protected_chain @ [] @ [UpdateHandler ext])
   \<and> chain_of (trees (gin_main ext)) DELETE ''/api/delete''
       = Some (global_chain @ protected_chain @ [] @ [handler ''DeleteHandler'' DeleteHandler])
   \<and> (\<not> aborted c \<and> Method (Req c) \<noteq> OPTIONS \<and> c_GetHeader ''Authorization'' c \<noteq> [] \<longrightarrow>
        all_proceed (global_chain @ protected_chain @ [] @ [H]) c
      \<and> fst (execute (global_chain @ protected_chain @ [] @ [H]) c)
          = [''sessions.Sessions'', ''gin.Recovery'', ''CorsMiddleware'', ''TimeMiddleware'',
             ''AuthMiddleware'', ''VersionMiddleware'', hname H])"
proof -
  have facade: "combineHandlers (group_Use B (group_Group p (group_Use A grp))) (C @ [H])
      = Handlers grp @ A @ B @ C @ [H]"
    by (simp add: combineHandlers_def group_Use_def group_Group_def)
  have order: "all_proceed (A @ B @ C @ [H]) c \<longrightarrow>
      fst (execute (A @ B @ C @ [H]) c) = map hname A @ map hname B @ map hname C @ [hname H]"
    using all_proceed_started [of "A @ B @ C @ [H]" c] by simp
  have demo: "all_proceed (global_chain @ protected_chain @ [] @ [H]) c
      \<and> fst (execute (global_chain @ protected_chain @ [] @ [H]) c)
          = [''sessions.Sessions'', ''gin.Recovery'', ''CorsMiddleware'', ''TimeMiddleware'',
             ''AuthMiddleware'', ''VersionMiddleware'', hname H]"
    if req: "\<not> aborted c" "Method (Req c) \<noteq> OPTIONS" "c_GetHeader ''Authorization'' c \<noteq> []"
  proof -
    from protected_chain_reach [OF req] obtain c'
      where "reach (global_chain @ protected_chain) c = Some c'" "\<not> aborted c'"
      by (auto simp: global_chain_def protected_chain_def)
    then have ap: "all_proceed (global_chain @ protected_chain @ [] @ [H]) c"
      by (simp add: all_proceed_def butlast_append)
    from all_proceed_started [OF ap] ap show ?thesis
      by (simp add: global_chain_def protected_chain_def)
  qed
  show ?thesis
    using facade execute_started_prefix [of "A @ B @ C @ [H]" c] order
      gin_main_protected_routes [of ext] demo
    by blast
qed

theorem middleware_run_in_registration_order_witness:
  "all_proceed (global_chain @ protected_chain @ [] @ [handler ''DeleteHandler'' DeleteHandler])
     (new_Context ((request_for DELETE ''/api/delete'')
        \<lparr>ReqHeader := [(''Authorization'', ''token'')]\<rparr>) 0)
   \<and> chain_of (trees (gin_main sample_GinExternal)) DELETE ''/api/delete''
       = Some (global_chain @ protected_chain @ [] @ [handler ''DeleteHandler'' DeleteHandler])
   \<and> fst (execute (global_chain @ protected_chain @ [] @ [handler ''DeleteHandler'' DeleteHandler])
       (new_Context ((request_for DELETE ''/api/delete'')
          \<lparr>ReqHeader := [(''Authorization'', ''token'')]\<rparr>) 0))
     = [''sessions.Sessions'', ''gin.Recovery'', ''CorsMiddleware'', ''TimeMiddleware'',
        ''AuthMiddleware'', ''VersionMiddleware'', ''DeleteHandler'']"
proof -
  let ?c = "new_Context ((request_for DELETE ''/api/delete'')
        \<lparr>ReqHeader := [(''Authorization'', ''token'')]\<rparr>) 0"
  have req: "\<not> aborted ?c \<and> Method (Req ?c) \<noteq> OPTIONS \<and> c_GetHeader ''Authorization'' ?c \<noteq> []"
    by (simp add: new_Context_def request_for_def c_GetHeader_def Header_Get_def)
  from middleware_run_in_registration_order
         [of global_chain "''/api''" protected_chain "\<lparr>basePath = ''/'', Handlers = []\<rparr>" "[]"
             "handler ''DeleteHandler'' DeleteHandler" ?c sample_GinExternal] req
  show ?thesis
    by simp
qed

section \<open>The gin demo: what happens after \<open>c.Next()\<close>\<close>

lemma quiet_after_Sessions: "quiet_after (Sessions name)"
  by (simp add: quiet_after_def Sessions_def and_return_def)

lemma quiet_after_Recovery: "quiet_after Recovery"
  by (auto simp: quiet_after_def Recovery_def)

lemma quiet_after_CorsMiddleware: "quiet_after CorsMiddleware"
  by (auto simp: quiet_after_def CorsMiddleware_def Let_def and_return_def split: if_splits)

lemma quiet_after_TimeMiddleware: "quiet_after TimeMiddleware"
  by (auto simp: quiet_after_def TimeMiddleware_def Let_def after_Next_def log_Printf_def)

lemma quiet_after_AuthMiddleware: "quiet_after AuthMiddleware"
  by (auto simp: quiet_after_def AuthMiddleware_def Let_def and_return_def split: if_splits)

lemma quiet_after_VersionMiddleware: "quiet_after VersionMiddleware"
  by (simp add: quiet_after_def VersionMiddleware_def and_return_def)

lemma main_middleware_quiet:
  "list_all (\<lambda>h. quiet_after (run h)) (global_chain @ protected_chain)"
  by (simp add: global_chain_def protected_chain_def quiet_after_Sessions quiet_after_Recovery
      quiet_after_CorsMiddleware quiet_after_TimeMiddleware quiet_after_AuthMiddleware
      quiet_after_VersionMiddleware)

lemma unwind_quiet:
  "list_all (\<lambda>h. quiet_after (run h)) pre \<Longrightarrow>
     \<exists>y. unwind pre c (Ok x) = Ok y \<and> Writer y = Writer x"
proof (induction pre arbitrary: c)
  case Nil
  show ?case by simp
next
  case (Cons h pre)
  then have q: "quiet_after (run h)" and rest: "list_all (\<lambda>h. quiet_after (run h)) pre"
    by simp_all
  show ?case
  proof (cases "run h c")
    case (Next c1 k)
    from Cons.IH [OF rest, of c1] obtain y'
      where y': "unwind pre c1 (Ok x) = Ok y'" "Writer y' = Writer x"
      by blast
    from q Next obtain y where "k (Ok y') = Ok y" "Writer y = Writer y'"
      unfolding quiet_after_def by blast
    with Next y' show ?thesis by simp
  next
    case (Return c1)
    with Cons.IH [OF rest, of c1] show ?thesis by simp
  next
    case (Panics e c1)
    then show ?thesis by simp
  qed
qed

lemma global_chain_reach:
  assumes "\<not> aborted c" "Method (Req c) \<noteq> OPTIONS"
  shows "\<exists>cB. reach global_chain c = Some cB \<and> \<not> aborted cB \<and> Req cB = Req c
            \<and> wroteHeader (Writer cB) = wroteHeader (Writer c)
            \<and> body (Writer cB) = body (Writer c)"
proof -
  let ?c1 = "c_Set ''github.com/gin-contrib/sessions'' ''mysession'' c"
  have "CorsMiddleware ?c1 = Next (if Header_Get (ReqHeader (Req c)) ''Origin'' \<noteq> []
               then c_Header ''Access-Control-Allow-Credentials'' ''true''
                     (c_Header ''Access-Control-Expose-Headers''
                        ''Content-Length, Access-Control-Allow-Origin, Access-Control-Allow-Headers''
                     (c_Header ''Access-Control-Allow-Headers''
                        ''Origin, X-Requested-With, Content-Type, Accept, Authorization''
                     (c_Header ''Access-Control-Allow-Methods''
                        ''POST, GET, OPTIONS, PUT, DELETE, UPDATE''
                     (c_Header ''Access-Control-Allow-Origin''
                        (Header_Get (ReqHeader (Req c)) ''Origin'') ?c1))))
               else ?c1) and_return"
    using assms(2) by (simp add: CorsMiddleware_def Let_def)
  then show ?thesis
    using assms(1)
    by (simp add: global_chain_def Sessions_def Recovery_def TimeMiddleware_def Let_def
        c_Header_def c_Set_def w_Header_Set_def w_Header_Del_def)
qed

lemma sessions_recovery_reach:
  "\<not> aborted c \<Longrightarrow>
     reach (take 2 global_chain) c
       = Some (c_Set ''github.com/gin-contrib/sessions'' ''mysession'' c)"
  by (simp add: global_chain_def Sessions_def Recovery_def)

lemma global_chain_from_Cors:
  "global_chain @ post
     = take 2 global_chain @ handler ''CorsMiddleware'' CorsMiddleware
         # (handler ''TimeMiddleware'' TimeMiddleware # post)"
  by (simp add: global_chain_def)

lemma gin_main_noMethod:
  "noMethod (gin_main ext) = global_chain @ [Handle405 ext]"
  by (simp add: gin_main_def Let_def gin_New_def engine_Use_def group_Use_def group_Group_def
      group_handle_def combineHandlers_def joinPaths_def global_chain_def cong: let_weak_cong)

section \<open>Abort\<close>

text \<open>
  Claim C2. Let the handlers \<open>pre\<close> of a chain hand the context \<open>cB\<close> to the handler
  \<open>B\<close>, and let \<open>B\<close> return without calling \<open>c.Next()\<close>, the abort flag raised. Then
  the handlers started are those of \<open>pre\<close> and \<open>B\<close>: none of the handlers after \<open>B\<close>,
  the route's own included, starts; and with the handlers of \<open>pre\<close> quiet after
  \<open>c.Next()\<close>, the request ends without a panic and its response is the one \<open>B\<close>
  wrote. Every middleware that \<open>main\<close> installs is quiet after \<open>c.Next()\<close>. So for
  every request that is not OPTIONS and has no Authorization header, whatever the
  route of the protected group, the chain stops at \<open>AuthMiddleware\<close> and the response
  is the one \<open>AuthMiddleware\<close> wrote, a 401 with the JSON error body; and for every
  OPTIONS request, whatever follows the global middleware, the chain stops at
  \<open>CorsMiddleware\<close> and the response is the one \<open>CorsMiddleware\<close> wrote, a 204
  without body.
\<close>

theorem abort_ends_chain:
  "(reach pre c = Some cB \<and> \<not> aborted cB \<and> run B cB = Return c' \<and> aborted c' \<longrightarrow>
      execute (pre @ B # post) c = (map hname pre @ [hname B], unwind pre c (Ok c'))
    \<and> (list_all (\<lambda>h. quiet_after (run h)) pre \<longrightarrow>
         (\<exists>y. snd (execute (pre @ B # post) c) = Ok y \<and> Writer y = Writer c')))
   \<and> list_all (\<lambda>h. quiet_after (run h)) (global_chain @ protected_chain)
   \<and> (\<not> aborted c \<and> Method (Req c) \<noteq> OPTIONS \<and> c_GetHeader ''Authorization'' c = [] \<longrightarrow>
        (\<exists>cB y. reach global_chain c = Some cB
           \<and> AuthMiddleware cB
               = Return (c_Abort (c_JSON StatusUnauthorized unauthorized_json cB))
           \<and> execute (global_chain @ protected_chain @ post) c
               = ([''sessions.Sessions'', ''gin.Recovery'', ''CorsMiddleware'',
                   ''TimeMiddleware'', ''AuthMiddleware''], Ok y)
           \<and> Writer y = Writer (c_Abort (c_JSON StatusUnauthorized unauthorized_json cB))
           \<and> (\<not> wroteHeader (Writer c) \<longrightarrow>
                status (Writer y) = 401
              \<and> body (Writer y) = body (Writer c) @ unauthorized_json)))
   \<and> (\<not> aborted c \<and> Method (Req c) = OPTIONS \<longrightarrow>
        (\<exists>cB c'' y. reach (take 2 global_chain) c = Some cB
           \<and> CorsMiddleware cB = Return c'' \<and> aborted c''
           \<and> execute (global_chain @ post) c
               = ([''sessions.Sessions'', ''gin.Recovery'', ''CorsMiddleware''], Ok y)
           \<and> Writer y = Writer c''
           \<and> (\<not> wroteHeader (Writer c) \<longrightarrow>
                status (Writer y) = 204 \<and> body (Writer y) = body (Writer c))))"
proof -
  have generic: "execute (pre @ B # post) c = (map hname pre @ [hname B], unwind pre c (Ok c'))
      \<and> (list_all (\<lambda>h. quiet_after (run h)) pre \<longrightarrow>
           (\<exists>y. snd (execute (pre @ B # post) c) = Ok y \<and> Writer y = Writer c'))"
    if h: "reach pre c = Some cB" "\<not> aborted cB" "run B cB = Return c'" "aborted c'"
  proof -
    have e: "execute (pre @ B # post) c = (map hname pre @ [hname B], unwind pre c (Ok c'))"
      using h by (rule abort_split)
    show ?thesis
      using e unwind_quiet [of pre c c'] by simp
  qed
  have auth: "\<exists>cB y. reach global_chain c = Some cB
           \<and> AuthMiddleware cB
               = Return (c_Abort (c_JSON StatusUnauthorized unauthorized_json cB))
           \<and> execute (global_chain @ protected_chain @ post) c
               = ([''sessions.Sessions'', ''gin.Recovery'', ''CorsMiddleware'',
                   ''TimeMiddleware'', ''AuthMiddleware''], Ok y)
           \<and> Writer y = Writer (c_Abort (c_JSON StatusUnauthorized unauthorized_json cB))
           \<and> (\<not> wroteHeader (Writer c) \<longrightarrow>
                status (Writer y) = 401
              \<and> body (Writer y) = body (Writer c) @ unauthorized_json)"
    if h: "\<not> aborted c" "Method (Req c) \<noteq> OPTIONS" "c_GetHeader ''Authorization'' c = []"
  proof -
    from global_chain_reach [OF h(1,2)] obtain cB
      where cB: "reach global_chain c = Some cB" "\<not> aborted cB" "Req cB = Req c"
        "wroteHeader (Writer cB) = wroteHeader (Writer c)" "body (Writer cB) = body (Writer c)"
      by blast
    let ?c' = "c_Abort (c_JSON StatusUnauthorized unauthorized_json cB)"
    have tok: "c_GetHeader ''Authorization'' cB = []"
      using h(3) cB(3) by (simp add: c_GetHeader_def)
    note a = AuthMiddleware_aborts [OF tok]
    have e: "execute (global_chain @ handler ''AuthMiddleware'' AuthMiddleware
               # (handler ''VersionMiddleware'' VersionMiddleware # post)) c
          = (map hname global_chain @ [''AuthMiddleware''], unwind global_chain c (Ok ?c'))"
      using abort_split [OF cB(1,2), of "handler ''AuthMiddleware'' AuthMiddleware" ?c'] a
      by simp
    have q: "list_all (\<lambda>h. quiet_after (run h)) global_chain"
      using main_middleware_quiet by simp
    from unwind_quiet [OF q, of c ?c'] obtain y
      where y: "unwind global_chain c (Ok ?c') = Ok y" "Writer y = Writer ?c'"
      by blast
    have names: "map hname global_chain = [''sessions.Sessions'', ''gin.Recovery'',
        ''CorsMiddleware'', ''TimeMiddleware'']"
      by (simp add: global_chain_def)
    show ?thesis
      using cB a e y names by (auto simp: protected_chain_def)
  qed
  have cors: "\<exists>cB c'' y. reach (take 2 global_chain) c = Some cB
           \<and> CorsMiddleware cB = Return c'' \<and> aborted c''
           \<and> execute (global_chain @ post) c
               = ([''sessions.Sessions'', ''gin.Recovery'', ''CorsMiddleware''], Ok y)
           \<and> Writer y = Writer c''
           \<and> (\<not> wroteHeader (Writer c) \<longrightarrow>
                status (Writer y) = 204 \<and> body (Writer y) = body (Writer c))"
    if h: "\<not> aborted c" "Method (Req c) = OPTIONS"
  proof -
    let ?cB = "c_Set ''github.com/gin-contrib/sessions'' ''mysession'' c"
    have r: "reach (take 2 global_chain) c = Some ?cB"
      using h(1) by (rule sessions_recovery_reach)
    have na: "\<not> aborted ?cB" and opt: "Method (Req ?cB) = OPTIONS"
      using h by simp_all
    from CorsMiddleware_aborts [OF opt] obtain c''
      where c'': "CorsMiddleware ?cB = Return c''" "aborted c''"
        "\<not> wroteHeader (Writer ?cB) \<longrightarrow>
           status (Writer c'') = 204 \<and> wroteHeader (Writer c'')
           \<and> body (Writer c'') = body (Writer ?cB)"
      by blast
    have e: "execute (global_chain @ post) c
          = (map hname (take 2 global_chain) @ [''CorsMiddleware''],
             unwind (take 2 global_chain) c (Ok c''))"
      unfolding global_chain_from_Cors [of post]
      using abort_split [OF r na, of "handler ''CorsMiddleware'' CorsMiddleware" c''] c''(1,2)
      by simp
    have u: "unwind (take 2 global_chain) c (Ok c'') = Ok c''"
      by (simp add: global_chain_def Sessions_def Recovery_def and_return_def)
    have names: "map hname (take 2 global_chain) = [''sessions.Sessions'', ''gin.Recovery'']"
      by (simp add: global_chain_def)
    show ?thesis
      using r c'' e u names by auto
  qed
  show ?thesis
    using generic main_middleware_quiet auth cors by blast
qed

theorem abort_ends_chain_witness:
  "reach global_chain (new_Context (request_for DELETE ''/api/delete'') 5)
     = Some (c_Set ''github.com/gin-contrib/sessions'' ''mysession''
              (new_Context (request_for DELETE ''/api/delete'') 5))
   \<and> \<not> aborted (c_Set ''github.com/gin-contrib/sessions'' ''mysession''
              (new_Context (request_for DELETE ''/api/delete'') 5))
   \<and> list_all (\<lambda>h. quiet_after (run h)) global_chain
   \<and> chain_of (trees (gin_main sample_GinExternal)) DELETE ''/api/delete''
       = Some (global_chain @ protected_chain @ [] @ [handler ''DeleteHandler'' DeleteHandler])
   \<and> execute (global_chain @ protected_chain @ [handler ''DeleteHandler'' DeleteHandler])
        (new_Context (request_for DELETE ''/api/delete'') 5)
     = ([''sessions.Sessions'', ''gin.Recovery'', ''CorsMiddleware'', ''TimeMiddleware'',
         ''AuthMiddleware''],
        Ok \<lparr>Req = request_for DELETE ''/api/delete'',
            Writer = \<lparr>header = [(''Content-Type'', ''application/json; charset=utf-8'')],
                       wroteHeader = True, status = 401, body = unauthorized_json\<rparr>,
            Keys = [''github.com/gin-contrib/sessions'' \<mapsto> ''mysession''],
            aborted = True, clock = 5,
            logged = [RequestTimed DELETE ''/api/delete'' 0]\<rparr>)
   \<and> Writer (context_of (snd (execute
          (global_chain @ protected_chain @ [handler ''DeleteHandler'' DeleteHandler])
          (new_Context (request_for DELETE ''/api/delete'') 5))))
     = Writer (c_Abort (c_JSON StatusUnauthorized unauthorized_json
         (c_Set ''github.com/gin-contrib/sessions'' ''mysession''
              (new_Context (request_for DELETE ''/api/delete'') 5))))
   \<and> noMethod (gin_main sample_GinExternal) = global_chain @ [Handle405 sample_GinExternal]
   \<and> fst (execute (noMethod (gin_main sample_GinExternal))
        (new_Context (request_for OPTIONS ''/api/delete'') 5))
     = [''sessions.Sessions'', ''gin.Recovery'', ''CorsMiddleware'']
   \<and> status (Writer (context_of (snd (execute (noMethod (gin_main sample_GinExternal))
        (new_Context (request_for OPTIONS ''/api/delete'') 5))))) = 204
   \<and> body (Writer (context_of (snd (execute (noMethod (gin_main sample_GinExternal))
        (new_Context (request_for OPTIONS ''/api/delete'') 5))))) = []"
proof -
  let ?c = "new_Context (request_for DELETE ''/api/delete'') 5"
  let ?cB = "c_Set ''github.com/gin-contrib/sessions'' ''mysession'' ?c"
  let ?c' = "c_Abort (c_JSON StatusUnauthorized unauthorized_json ?cB)"
  let ?o = "new_Context (request_for OPTIONS ''/api/delete'') 5"
  let ?auth = "handler ''AuthMiddleware'' AuthMiddleware"
  let ?rest = "[handler ''VersionMiddleware'' VersionMiddleware,
                handler ''DeleteHandler'' DeleteHandler]"
  let ?h405 = "Handle405 sample_GinExternal"
  have r: "reach global_chain ?c = Some ?cB"
    by (simp add: gin_eval)
  have na: "\<not> aborted ?cB"
    by (simp add: gin_eval)
  have tok: "c_GetHeader ''Authorization'' ?cB = []"
    by (simp add: gin_eval)
  have b: "run ?auth ?cB = Return ?c'" "aborted ?c'"
    using AuthMiddleware_aborts [OF tok] by simp_all
  have chain: "global_chain @ protected_chain @ [handler ''DeleteHandler'' DeleteHandler]
      = global_chain @ ?auth # ?rest"
    by (simp add: protected_chain_def)
  have reqo: "\<not> aborted ?o" "Method (Req ?o) = OPTIONS" "\<not> wroteHeader (Writer ?o)"
    "body (Writer ?o) = []"
    by (simp_all add: new_Context_def request_for_def gin_fresh_writer_def)
  note thm1 = abort_ends_chain [of global_chain ?c ?cB ?auth ?c' ?rest]
  from thm1 r na b
  have a: "execute (global_chain @ ?auth # ?rest) ?c
             = (map hname global_chain @ [hname ?auth], unwind global_chain ?c (Ok ?c'))"
    and q: "list_all (\<lambda>h. quiet_after (run h)) (global_chain @ protected_chain)"
    by blast+
  from q have q': "list_all (\<lambda>h. quiet_after (run h)) global_chain"
    by simp
  from thm1 r na b q'
  obtain y where y: "snd (execute (global_chain @ ?auth # ?rest) ?c) = Ok y" "Writer y = Writer ?c'"
    by blast
  from abort_ends_chain [of global_chain ?o ?cB ?auth ?c' "[?h405]"] reqo
  obtain yo where o: "execute (global_chain @ [?h405]) ?o
        = ([''sessions.Sessions'', ''gin.Recovery'', ''CorsMiddleware''], Ok yo)"
      "status (Writer yo) = 204" "body (Writer yo) = []"
    by auto
  have names: "map hname global_chain = [''sessions.Sessions'', ''gin.Recovery'',
      ''CorsMiddleware'', ''TimeMiddleware'']"
    by (simp add: global_chain_def)
  have final: "unwind global_chain ?c (Ok ?c')
      = Ok \<lparr>Req = request_for DELETE ''/api/delete'',
            Writer = \<lparr>header = [(''Content-Type'', ''application/json; charset=utf-8'')],
                       wroteHeader = True, status = 401, body = unauthorized_json\<rparr>,
            Keys = [''github.com/gin-contrib/sessions'' \<mapsto> ''mysession''],
            aborted = True, clock = 5,
            logged = [RequestTimed DELETE ''/api/delete'' 0]\<rparr>"
    by (simp add: gin_eval)
  show ?thesis
    using r na q' a y o gin_main_protected_routes(3) [of sample_GinExternal]
    by (simp add: chain names final gin_main_noMethod)
qed

end
